theory Spec2Isabelle
  imports Main "HOL-Library.Sublist" "HOL-Library.Word"
begin

unbundle bit_operations_syntax

section \<open>JavaScript values and effects\<close>

text \<open>
  The worker script (\<^verbatim>\<open>server.js\<close>: Log Publisher, Build Runner and Log Consumer) and the
  webhook route are asynchronous JavaScript. Each function is embedded as a pure function
  from an environment, which fixes the outcome of every call to an external collaborator
  (message broker, object store, analytics store, file system), to the list of effects
  the function performs, in order, paired with the exception that escapes it, if any.
\<close>

datatype exn = SyntaxError | TypeError | RangeError | BrokerError | StoreError | FsError | S3Error
  | DbError | NetworkError | SpawnError

text \<open>The value object that \<^verbatim>\<open>publishLog\<close> serialises with \<^verbatim>\<open>JSON.stringify\<close>.\<close>

record log_message =
  msg_PROJECT_ID :: string
  msg_DEPLOYEMENT_ID :: string
  msg_log :: string

text \<open>The input of \<^verbatim>\<open>PutObjectCommand\<close>. \<^verbatim>\<open>mime.lookup\<close> returns \<^verbatim>\<open>false\<close> when it knows no
  type for the path: that is \<open>None\<close>.\<close>

record put_object =
  Bucket :: string
  Key :: string
  Body :: string
  ContentType :: "string option"

text \<open>A row of the table \<^verbatim>\<open>log_events\<close>.\<close>

record log_row =
  event_id :: string
  deployment_id :: "string option"
  log :: string

datatype event =
    ConsoleLog string
  | ConsoleErrorText string string
  | Exec string string
  | ConsoleLogEntry "string option" "string option"
  | ConsoleLogQueryId
  | ConsoleLogErr exn
  | ConsoleError string exn
  | ProducerConnect
  | ProducerSend string string log_message
  | S3Send put_object
  | Resolve
  | Reject exn
  | ClickhouseInsert string log_row
  | CommitOffsets string nat string
  | Heartbeat
  | ConsumerDisconnect
  | ProcessExit int

type_synonym run = "event list \<times> exn option"

definition emit :: "event \<Rightarrow> run" where
  "emit e = ([e], None)"

definition throw :: "exn \<Rightarrow> run" where
  "throw x = ([], Some x)"

text \<open>Sequencing of two awaited steps: the second runs only when the first did not throw.\<close>

definition seq :: "run \<Rightarrow> run \<Rightarrow> run" where
  "seq a b = (case a of (evs, Some x) \<Rightarrow> (evs, Some x) | (evs, None) \<Rightarrow> (evs @ fst b, snd b))"

text \<open>An external call: the effect is recorded, and the call throws when the environment
  says so.\<close>

definition call :: "event \<Rightarrow> bool \<Rightarrow> exn \<Rightarrow> run" where
  "call e fails x = ([e], if fails then Some x else None)"

subsection \<open>Strings\<close>

text \<open>\<^verbatim>\<open>String.prototype.includes\<close>: the pattern occurs somewhere in the string.\<close>

fun includes_str :: "string \<Rightarrow> string \<Rightarrow> bool" where
  "includes_str [] pat = (pat = [])"
| "includes_str (c # cs) pat = (prefix pat (c # cs) \<or> includes_str cs pat)"

text \<open>\<^verbatim>\<open>String.prototype.replace\<close> with a string pattern: only the first occurrence is
  replaced, wherever it stands.\<close>

fun replace_str :: "string \<Rightarrow> string \<Rightarrow> string \<Rightarrow> string" where
  "replace_str [] pat rep = (if pat = [] then rep else [])"
| "replace_str (c # cs) pat rep =
     (if prefix pat (c # cs) then rep @ drop (length pat) (c # cs)
      else c # replace_str cs pat rep)"

text \<open>A number inside a template literal: its decimal digits.\<close>

definition digit_char :: "nat \<Rightarrow> char" where
  "digit_char d = ''0123456789'' ! d"

fun show_nat :: "nat \<Rightarrow> string" where
  "show_nat n = (if n < 10 then [digit_char n] else show_nat (n div 10) @ [digit_char (n mod 10)])"

text \<open>\<^verbatim>\<open>path.join\<close> of a directory and a relative path: one separator stands between the
  two, also when the directory ends with one (the root), and an empty argument adds nothing.
  The arguments hold no \<^verbatim>\<open>.\<close> or \<^verbatim>\<open>..\<close> segment and no doubled separator, as the paths of
  the script do.\<close>

definition path_join :: "string \<Rightarrow> string \<Rightarrow> string" where
  "path_join dir p =
     (if dir = [] then (if p = [] then ''.'' else p)
      else if p = [] then dir
      else if last dir = CHR ''/'' then dir @ p
      else dir @ ''/'' @ p)"

section \<open>The worker's environment\<close>

text \<open>
  The constants of the script that come from the process environment, and the outcome of
  every external call. A call that can fail is keyed by its argument: within one run the
  arguments are pairwise distinct, so every pattern of failures is an environment.
\<close>

record worker_env =
  PROJECT_ID :: string
  DEPLOYEMENT_ID :: string
  PROJECT_INSTALL_COMMAND :: string
  PROJECT_BUILD_COMMAND :: string
  PROJECT_ROOT_DIR :: string
  S3_BUCKET_NAME :: string
  dirname :: string
  connect_throws :: "string \<Rightarrow> bool"
  send_throws :: "string \<Rightarrow> bool"
  readdirSync :: "string \<Rightarrow> string list option"
  lstat_isDirectory :: "string \<Rightarrow> bool option"
  mime_lookup :: "string \<Rightarrow> string option"
  s3_send_throws :: "put_object \<Rightarrow> bool"

section \<open>Log Publisher\<close>

text \<open>The \<^verbatim>\<open>try\<close> block of \<^verbatim>\<open>publishLog\<close>: connect, then one send to the topic.\<close>

definition publishLog_try :: "worker_env \<Rightarrow> string \<Rightarrow> run" where
  "publishLog_try env line =
     seq (call ProducerConnect (connect_throws env line) BrokerError)
         (call (ProducerSend ''build-logs'' ''log''
                  \<lparr>msg_PROJECT_ID = PROJECT_ID env, msg_DEPLOYEMENT_ID = DEPLOYEMENT_ID env,
                   msg_log = line\<rparr>)
               (send_throws env line) BrokerError)"

text \<open>\<^verbatim>\<open>publishLog\<close>: the \<^verbatim>\<open>catch\<close> clause logs the error and falls through.\<close>

definition publishLog :: "worker_env \<Rightarrow> string \<Rightarrow> run" where
  "publishLog env line =
     (case publishLog_try env line of
        (evs, Some x) \<Rightarrow> (evs @ [ConsoleError ''Error publishing log:'' x], None)
      | (evs, None) \<Rightarrow> (evs, None))"

section \<open>Build Runner: the close handler\<close>

definition outputDir :: "worker_env \<Rightarrow> string" where
  "outputDir env = path_join (dirname env) ''output''"

definition distDir :: "worker_env \<Rightarrow> string" where
  "distDir env = path_join (outputDir env) ''dist''"

definition put_command :: "worker_env \<Rightarrow> string \<Rightarrow> put_object" where
  "put_command env f =
     \<lparr>Bucket = S3_BUCKET_NAME env,
      Key = ''__outputs/'' @ PROJECT_ID env @ ''/'' @ f,
      Body = path_join (distDir env) f,
      ContentType = mime_lookup env (path_join (distDir env) f)\<rparr>"

definition uploading_line :: "worker_env \<Rightarrow> string \<Rightarrow> string" where
  "uploading_line env f = ''Uploading '' @ path_join (distDir env) f @ ''...''"

text \<open>The loop over \<^verbatim>\<open>distFiles\<close>.\<close>

fun upload_files :: "worker_env \<Rightarrow> string list \<Rightarrow> run" where
  "upload_files env [] = ([], None)"
| "upload_files env (f # fs) =
     (case lstat_isDirectory env (path_join (distDir env) f) of
        None \<Rightarrow> throw FsError
      | Some True \<Rightarrow> upload_files env fs
      | Some False \<Rightarrow>
          seq (emit (ConsoleLog (uploading_line env f)))
         (seq (publishLog env (uploading_line env f))
         (seq (call (S3Send (put_command env f)) (s3_send_throws env (put_command env f)) S3Error)
              (upload_files env fs))))"

text \<open>The exit code of the child process, as the template literal prints it.\<close>

definition show_code :: "nat option \<Rightarrow> string" where
  "show_code code = (case code of None \<Rightarrow> ''null'' | Some n \<Rightarrow> show_nat n)"

definition build_complete_line :: "nat option \<Rightarrow> string" where
  "build_complete_line code = ''Build complete with code '' @ show_code code"

definition sentinel_line :: string where
  "sentinel_line = ''Upload complete...''"

definition read_and_upload :: "worker_env \<Rightarrow> run" where
  "read_and_upload env =
     (case readdirSync env (distDir env) of
        None \<Rightarrow> throw FsError
      | Some distFiles \<Rightarrow> upload_files env distFiles)"

definition close_steps :: "worker_env \<Rightarrow> nat option \<Rightarrow> run" where
  "close_steps env code =
     seq (emit (ConsoleLog (build_complete_line code)))
    (seq (publishLog env (build_complete_line code))
         (read_and_upload env))"

definition close_finish :: "worker_env \<Rightarrow> run" where
  "close_finish env =
     seq (emit (ConsoleLog sentinel_line))
    (seq (publishLog env sentinel_line)
    (seq (emit Resolve) (emit (ProcessExit 0))))"

text \<open>The \<^verbatim>\<open>try\<close> block of the handler of the child's \<^verbatim>\<open>close\<close> event.\<close>

definition close_try :: "worker_env \<Rightarrow> nat option \<Rightarrow> run" where
  "close_try env code = seq (close_steps env code) (close_finish env)"

text \<open>The handler: the events of the run and the status the process exits with.\<close>

definition close_handler :: "worker_env \<Rightarrow> nat option \<Rightarrow> event list \<times> int" where
  "close_handler env code =
     (case close_try env code of
        (evs, None) \<Rightarrow> (evs, 0)
      | (evs, Some x) \<Rightarrow>
          (evs @ [ConsoleError ''Error in build process close handler:'' x, Reject x, ProcessExit 1], 1))"

subsection \<open>The whole run\<close>

text \<open>
  What the child process does is an input of the run: the chunks it writes, in order, and
  how it ends. \<^verbatim>\<open>exec\<close> may throw inside the promise executor, the child may emit \<^verbatim>\<open>error\<close>,
  or it closes with an exit code (\<open>None\<close>: it was killed by a signal). Each handler is taken
  to finish before the next event of the child is delivered.
\<close>

datatype chunk = Stdout string | Stderr string



text \<open>The handlers of the \<^verbatim>\<open>data\<close> events of the child's standard output and standard
  error: the chunk is logged and published as it is.\<close>

fun on_data :: "worker_env \<Rightarrow> chunk \<Rightarrow> run" where
  "on_data env (Stdout d) = seq (emit (ConsoleLog d)) (publishLog env d)"
| "on_data env (Stderr d) = seq (emit (ConsoleErrorText ''Error:'' d)) (publishLog env d)"




subsection \<open>Notions used to state the runner's properties\<close>

fun is_send :: "event \<Rightarrow> bool" where
  "is_send (ProducerSend t k m) = True"
| "is_send e = False"


text \<open>The entry of the listing is not a directory, so the loop uploads it.\<close>

definition is_file :: "worker_env \<Rightarrow> string \<Rightarrow> bool" where
  "is_file env f = (lstat_isDirectory env (path_join (distDir env) f) = Some False)"

text \<open>The events of one pass through the body of the loop, for an entry that is uploaded.\<close>

definition upload_segment :: "worker_env \<Rightarrow> string \<Rightarrow> event list" where
  "upload_segment env f =
     ConsoleLog (uploading_line env f) # fst (publishLog env (uploading_line env f))
       @ [S3Send (put_command env f)]"

fun is_put :: "event \<Rightarrow> bool" where
  "is_put (S3Send c) = True"
| "is_put e = False"

subsection \<open>Example runs\<close>

text \<open>A build output of three files and one directory; every external call succeeds.\<close>

definition demo_env :: worker_env where
  "demo_env =
     \<lparr>PROJECT_ID = ''p1'', DEPLOYEMENT_ID = ''d1'',
      PROJECT_INSTALL_COMMAND = ''npm install'', PROJECT_BUILD_COMMAND = ''npm run build'',
      PROJECT_ROOT_DIR = ''./'', S3_BUCKET_NAME = ''bucket'',
      dirname = ''/home/app'',
      connect_throws = (\<lambda>l. False), send_throws = (\<lambda>l. False),
      readdirSync = (\<lambda>d. if d = ''/home/app/output/dist''
                          then Some [''index.html'', ''assets'', ''assets/app.js'', ''LICENSE'']
                          else None),
      lstat_isDirectory = (\<lambda>p. if p = ''/home/app/output/dist/assets'' then Some True else Some False),
      mime_lookup = (\<lambda>p. if p = ''/home/app/output/dist/index.html'' then Some ''text/html''
                          else if p = ''/home/app/output/dist/assets/app.js''
                          then Some ''application/javascript'' else None),
      s3_send_throws = (\<lambda>c. False)\<rparr>"





section \<open>Log Consumer\<close>

text \<open>
  What \<^verbatim>\<open>JSON.parse\<close> and the destructuring \<^verbatim>\<open>const { DEPLOYEMENT_ID, log }\<close> make of a
  message value: the text is no JSON (\<^verbatim>\<open>SyntaxError\<close>), it is the JSON \<^verbatim>\<open>null\<close> (the
  destructuring throws \<^verbatim>\<open>TypeError\<close>), or it yields the two fields, each of which may be
  undefined. A \<^verbatim>\<open>log\<close> that is defined is a string, as the publisher writes it.
\<close>

datatype payload = Malformed | JsonNull | Parsed "string option" "string option"

text \<open>A message of the batch; \<open>msg_payload = None\<close> is a message whose \<^verbatim>\<open>value\<close> is null.\<close>

record message =
  msg_payload :: "payload option"
  msg_offset :: string

record batch =
  batch_partition :: nat
  batch_messages :: "message list"

text \<open>The outcome of the consumer's external calls, keyed by the message being handled
  (the offsets of the messages of one batch are pairwise distinct).\<close>

record consumer_env =
  insert_throws :: "message \<Rightarrow> bool"
  commit_throws :: "message \<Rightarrow> bool"
  heartbeat_throws :: "message \<Rightarrow> bool"
  disconnect_throws :: bool

definition insert_event :: "string \<Rightarrow> string option \<Rightarrow> string \<Rightarrow> event" where
  "insert_event eid dep line =
     ClickhouseInsert ''log_events'' \<lparr>event_id = eid, deployment_id = dep, log = line\<rparr>"

definition commit_event :: "nat \<Rightarrow> message \<Rightarrow> event" where
  "commit_event part m = CommitOffsets ''build-logs'' part (msg_offset m)"

text \<open>The inner \<^verbatim>\<open>try\<close> block of the loop: insert, log the query id, commit the offset of
  this message, heartbeat.\<close>

definition insert_and_commit ::
  "consumer_env \<Rightarrow> string \<Rightarrow> nat \<Rightarrow> message \<Rightarrow> string option \<Rightarrow> string \<Rightarrow> run" where
  "insert_and_commit env eid part m dep line =
     seq (call (insert_event eid dep line) (insert_throws env m) StoreError)
    (seq (emit ConsoleLogQueryId)
    (seq (call (commit_event part m) (commit_throws env m) BrokerError)
         (call Heartbeat (heartbeat_throws env m) BrokerError)))"

text \<open>The inner \<^verbatim>\<open>try\<close> with its \<^verbatim>\<open>catch\<close>, which logs the error and goes on.\<close>

definition store_message ::
  "consumer_env \<Rightarrow> string \<Rightarrow> nat \<Rightarrow> message \<Rightarrow> string option \<Rightarrow> string \<Rightarrow> run" where
  "store_message env eid part m dep line =
     (case insert_and_commit env eid part m dep line of
        (evs, Some x) \<Rightarrow> (evs @ [ConsoleLogErr x], None)
      | (evs, None) \<Rightarrow> (evs, None))"

text \<open>
  The loop over the messages of a batch. \<^verbatim>\<open>isUploadComplete\<close> is a variable of the enclosing
  function, shared by all batches: the loop takes its value and returns the new one, also
  when an exception leaves the loop.
\<close>

fun each_message ::
  "consumer_env \<Rightarrow> string \<Rightarrow> nat \<Rightarrow> bool \<Rightarrow> message list \<Rightarrow> event list \<times> bool \<times> exn option" where
  "each_message env eid part isUploadComplete [] = ([], isUploadComplete, None)"
| "each_message env eid part isUploadComplete (m # ms) =
     (case msg_payload m of
        None \<Rightarrow> each_message env eid part isUploadComplete ms
      | Some Malformed \<Rightarrow> ([], isUploadComplete, Some SyntaxError)
      | Some JsonNull \<Rightarrow> ([], isUploadComplete, Some TypeError)
      | Some (Parsed dep None) \<Rightarrow> ([ConsoleLogEntry None dep], isUploadComplete, Some TypeError)
      | Some (Parsed dep (Some line)) \<Rightarrow>
          (case store_message env eid part m dep line of
             (evs, Some x) \<Rightarrow>
               (ConsoleLogEntry (Some line) dep # evs,
                isUploadComplete \<or> includes_str line ''Upload complete'', Some x)
           | (evs, None) \<Rightarrow>
               (case each_message env eid part
                       (isUploadComplete \<or> includes_str line ''Upload complete'') ms of
                  (rest, flag, r) \<Rightarrow> (ConsoleLogEntry (Some line) dep # evs @ rest, flag, r))))"

datatype outcome = Returned | Threw exn | Exited int

definition recv_line :: "batch \<Rightarrow> string" where
  "recv_line b = ''Recv. '' @ show_nat (length (batch_messages b)) @ '' messages..''"

text \<open>\<^verbatim>\<open>eachBatch\<close>: the events, the new value of \<^verbatim>\<open>isUploadComplete\<close>, and how the call
  ends.\<close>

definition eachBatch ::
  "consumer_env \<Rightarrow> string \<Rightarrow> bool \<Rightarrow> batch \<Rightarrow> event list \<times> bool \<times> outcome" where
  "eachBatch env eid isUploadComplete b =
     (case each_message env eid (batch_partition b) isUploadComplete (batch_messages b) of
        (evs, flag, Some x) \<Rightarrow> (ConsoleLog (recv_line b) # evs, flag, Threw x)
      | (evs, flag, None) \<Rightarrow>
          (if flag then
             (if disconnect_throws env
              then (ConsoleLog (recv_line b) # evs
                      @ [ConsoleLog ''Upload complete. Exiting process...'', ConsumerDisconnect],
                    flag, Threw BrokerError)
              else (ConsoleLog (recv_line b) # evs
                      @ [ConsoleLog ''Upload complete. Exiting process...'', ConsumerDisconnect,
                         ProcessExit 0],
                    flag, Exited 0))
           else (ConsoleLog (recv_line b) # evs, flag, Returned)))"

subsection \<open>Notions used to state the consumer's properties\<close>

fun is_insert :: "event \<Rightarrow> bool" where
  "is_insert (ClickhouseInsert t r) = True"
| "is_insert e = False"

fun is_commit :: "event \<Rightarrow> bool" where
  "is_commit (CommitOffsets t p off) = True"
| "is_commit e = False"

fun is_exit :: "event \<Rightarrow> bool" where
  "is_exit (ProcessExit c) = True"
| "is_exit e = False"

text \<open>The message has a value, and the value decodes to a record with a log line.\<close>

fun log_of :: "message \<Rightarrow> string option" where
  "log_of m = (case msg_payload m of Some (Parsed dep (Some line)) \<Rightarrow> Some line | _ \<Rightarrow> None)"

fun dep_of :: "message \<Rightarrow> string option" where
  "dep_of m = (case msg_payload m of Some (Parsed dep l) \<Rightarrow> dep | _ \<Rightarrow> None)"

definition decodes :: "message \<Rightarrow> bool" where
  "decodes m = (msg_payload m = None \<or> log_of m \<noteq> None)"

definition has_sentinel :: "message \<Rightarrow> bool" where
  "has_sentinel m = (case log_of m of Some line \<Rightarrow> includes_str line ''Upload complete'' | None \<Rightarrow> False)"

definition has_value :: "message \<Rightarrow> bool" where
  "has_value m = (msg_payload m \<noteq> None)"

definition message_insert :: "string \<Rightarrow> message \<Rightarrow> event" where
  "message_insert eid m = insert_event eid (dep_of m) (case log_of m of Some line \<Rightarrow> line | None \<Rightarrow> [])"

subsection \<open>Example messages\<close>

definition calm_consumer :: consumer_env where
  "calm_consumer =
     \<lparr>insert_throws = (\<lambda>m. False), commit_throws = (\<lambda>m. False),
      heartbeat_throws = (\<lambda>m. False), disconnect_throws = False\<rparr>"

definition line_at :: "string \<Rightarrow> string \<Rightarrow> message" where
  "line_at off line = \<lparr>msg_payload = Some (Parsed (Some ''d1'') (Some line)), msg_offset = off\<rparr>"

definition tombstone_at :: "string \<Rightarrow> message" where
  "tombstone_at off = \<lparr>msg_payload = None, msg_offset = off\<rparr>"

definition garbled_at :: "string \<Rightarrow> message" where
  "garbled_at off = \<lparr>msg_payload = Some Malformed, msg_offset = off\<rparr>"

text \<open>A store that rejects every insert, and some batches.\<close>

definition failing_store :: consumer_env where
  "failing_store = calm_consumer\<lparr>insert_throws := (\<lambda>m. True)\<rparr>"

definition one_line_batch :: batch where
  "one_line_batch = \<lparr>batch_partition = 0, batch_messages = [line_at ''7'' ''npm install'']\<rparr>"

definition five_line_batch :: batch where
  "five_line_batch =
     \<lparr>batch_partition = 0,
      batch_messages = [line_at ''0'' ''Executing script...'', line_at ''1'' ''npm install'',
                        line_at ''2'' ''Build complete with code 0'',
                        line_at ''3'' ''Uploading /home/app/output/dist/index.html...'',
                        line_at ''4'' ''Upload complete...'']\<rparr>"

definition tombstone_batch :: batch where
  "tombstone_batch =
     \<lparr>batch_partition = 0,
      batch_messages = [tombstone_at ''0'', line_at ''1'' ''Upload complete...'']\<rparr>"

definition garbled_batch :: batch where
  "garbled_batch =
     \<lparr>batch_partition = 0,
      batch_messages = [line_at ''0'' ''Upload complete...'', garbled_at ''1'']\<rparr>"

definition later_batch :: batch where
  "later_batch = \<lparr>batch_partition = 0, batch_messages = [line_at ''2'' ''npm install'']\<rparr>"

section \<open>Webhook Dispatcher\<close>

text \<open>
  The route handler \<^verbatim>\<open>POST\<close> of \<^verbatim>\<open>api/git/webhook/route.ts\<close>. The keyed hash, the JSON
  parser, the project store and the two outbound calls are collaborators: the environment
  fixes what each returns.
\<close>

subsection \<open>Signature verification\<close>

definition hex_char :: "nat \<Rightarrow> char" where
  "hex_char d = ''0123456789abcdef'' ! d"

text \<open>\<^verbatim>\<open>digest("hex")\<close> of a 256-bit hash: 64 hexadecimal digits, the highest first.\<close>

definition hex_digest :: "256 word \<Rightarrow> string" where
  "hex_digest w = map (\<lambda>i. hex_char (unat (drop_bit (4 * (63 - i)) w AND 15))) [0..<64]"

text \<open>\<^verbatim>\<open>crypto.timingSafeEqual\<close> on two buffers: it throws a \<^verbatim>\<open>RangeError\<close> when their byte
  lengths differ.\<close>

definition timingSafeEqual :: "string \<Rightarrow> string \<Rightarrow> exn + bool" where
  "timingSafeEqual a b = (if length a \<noteq> length b then Inl RangeError else Inr (a = b))"

record push_body =
  body_event :: "string option"
  body_repository :: "string option option"
  body_ref :: "string option"
  body_after :: "string option"

text \<open>What \<^verbatim>\<open>JSON.parse\<close> makes of the request text: no JSON, the JSON \<^verbatim>\<open>null\<close>, or a value
  whose fields are read (\<open>body_repository = None\<close>: there is no \<^verbatim>\<open>repository\<close> to read
  \<^verbatim>\<open>clone_url\<close> from; \<open>body_ref = None\<close>: \<^verbatim>\<open>ref\<close> is no string).\<close>

datatype parsed_body = NotJson | NullBody | Body push_body

text \<open>The rows of the project store, as the Prisma schema declares them.\<close>

record deployment =
  deployment_ident :: string
  createdAt :: nat
  environmentVariables :: "string option"

record project =
  project_ident :: string
  gitRepoUrl :: string
  installCommand :: "string option"
  buildCommand :: "string option"
  projectRootDir :: "string option"
  deployments :: "deployment list"

datatype env_vars = EmptyObject | Serialized string

record deployment_payload =
  p_projectId :: string
  p_gitBranchName :: string
  p_gitRepoUrl :: "string option"
  p_gitCommitHash :: "string option"
  p_buildCommand :: string
  p_installCommand :: string
  p_projectRootDir :: string
  p_environmentVariables :: env_vars

record request =
  signature_header :: "string option"
  req_text :: string
  projectId_param :: "string option"

record hook_env =
  GITHUB_WEBHOOK_SECRET :: "string option"
  hmac_sha256 :: "string \<Rightarrow> string \<Rightarrow> 256 word"
  json_parse :: "string \<Rightarrow> parsed_body"
  find_project :: "string option \<Rightarrow> string option \<Rightarrow> exn + project option"
  fetch_latest_throws :: "string option \<Rightarrow> string \<Rightarrow> bool"
  deploy_throws :: "deployment_payload \<Rightarrow> bool"

datatype hook_event =
    HookConsoleError string
  | HookConsoleLog string
  | FindUnique "string option" "string option"
  | FetchGitLatestCommit "string option" string
  | FetchDeploy deployment_payload

definition verifyGitHubWebhook :: "hook_env \<Rightarrow> request \<Rightarrow> string \<Rightarrow> hook_event list \<times> (exn + bool)" where
  "verifyGitHubWebhook env req payload =
     (case signature_header req of
        None \<Rightarrow> ([HookConsoleError ''No GitHub signature header found''], Inr False)
      | Some githubSignatureHeader \<Rightarrow>
          if githubSignatureHeader = []
          then ([HookConsoleError ''No GitHub signature header found''], Inr False)
          else (case GITHUB_WEBHOOK_SECRET env of
                  None \<Rightarrow> ([HookConsoleError ''GitHub webhook secret is not set''], Inr False)
                | Some secret \<Rightarrow>
                    if secret = []
                    then ([HookConsoleError ''GitHub webhook secret is not set''], Inr False)
                    else ([], timingSafeEqual (''sha256='' @ hex_digest (hmac_sha256 env secret payload))
                                              githubSignatureHeader)))"

subsection \<open>The response\<close>

record json_body =
  json_status :: nat
  json_message :: string
  json_projectsDeployed :: "nat option"
  json_error :: "exn option"

record response =
  http_status :: nat
  body :: json_body

text \<open>\<^verbatim>\<open>NextResponse.json(body, init)\<close>: the HTTP status is the one of \<^verbatim>\<open>init\<close>, and 200 when
  there is no \<^verbatim>\<open>init\<close>.\<close>

definition NextResponse_json :: "json_body \<Rightarrow> nat option \<Rightarrow> response" where
  "NextResponse_json b init = \<lparr>http_status = (case init of None \<Rightarrow> 200 | Some s \<Rightarrow> s), body = b\<rparr>"

definition plain_body :: "nat \<Rightarrow> string \<Rightarrow> json_body" where
  "plain_body s m = \<lparr>json_status = s, json_message = m, json_projectsDeployed = None, json_error = None\<rparr>"

subsection \<open>The handler\<close>

text \<open>\<^verbatim>\<open>a || d\<close> on an optional string: the default replaces a missing and an empty one.\<close>

definition or_default :: "string option \<Rightarrow> string \<Rightarrow> string" where
  "or_default a d = (case a of None \<Rightarrow> d | Some s \<Rightarrow> if s = [] then d else s)"

text \<open>\<^verbatim>\<open>project.deployments[0]?.environmentVariables || {}\<close>: read from the first deployment
  of the list the store returned.\<close>

definition first_environment :: "deployment list \<Rightarrow> env_vars" where
  "first_environment ds =
     (case ds of
        [] \<Rightarrow> EmptyObject
      | d # rest \<Rightarrow>
          (case environmentVariables d of
             None \<Rightarrow> EmptyObject
           | Some s \<Rightarrow> if s = [] then EmptyObject else Serialized s))"

definition deploymentPayload ::
  "project \<Rightarrow> string option \<Rightarrow> string \<Rightarrow> string option \<Rightarrow> deployment_payload" where
  "deploymentPayload p repoUrl branchName commitHash =
     \<lparr>p_projectId = project_ident p,
      p_gitBranchName = branchName,
      p_gitRepoUrl = repoUrl,
      p_gitCommitHash = commitHash,
      p_buildCommand = or_default (buildCommand p) ''npm run build'',
      p_installCommand = or_default (installCommand p) ''npm install'',
      p_projectRootDir = or_default (projectRootDir p) ''./'',
      p_environmentVariables = first_environment (deployments p)\<rparr>"

text \<open>The handler from the project lookup on.\<close>

definition dispatch ::
  "hook_env \<Rightarrow> request \<Rightarrow> string option \<Rightarrow> string \<Rightarrow> string option
     \<Rightarrow> hook_event list \<times> (exn + response)" where
  "dispatch env req repoUrl branchName commitHash =
     (case find_project env (projectId_param req) repoUrl of
        Inl x \<Rightarrow> ([FindUnique (projectId_param req) repoUrl], Inl x)
      | Inr None \<Rightarrow>
          ([FindUnique (projectId_param req) repoUrl],
           Inr (NextResponse_json (plain_body 200 ''No matching project found for the push event'') None))
      | Inr (Some p) \<Rightarrow>
          if fetch_latest_throws env repoUrl branchName
          then ([FindUnique (projectId_param req) repoUrl, FetchGitLatestCommit repoUrl branchName],
                Inl NetworkError)
          else if deploy_throws env (deploymentPayload p repoUrl branchName commitHash)
          then ([FindUnique (projectId_param req) repoUrl, FetchGitLatestCommit repoUrl branchName,
                 FetchDeploy (deploymentPayload p repoUrl branchName commitHash)],
                Inl NetworkError)
          else ([FindUnique (projectId_param req) repoUrl, FetchGitLatestCommit repoUrl branchName,
                 FetchDeploy (deploymentPayload p repoUrl branchName commitHash),
                 HookConsoleLog (''Deployment triggered for project '' @ project_ident p @ '':'')],
                Inr (NextResponse_json
                       ((plain_body 200 ''Webhook processed successfully'')
                          \<lparr>json_projectsDeployed := Some 1\<rparr>) None)))"

text \<open>The handler from \<^verbatim>\<open>JSON.parse\<close> on.\<close>

definition handle_body :: "hook_env \<Rightarrow> request \<Rightarrow> hook_event list \<times> (exn + response)" where
  "handle_body env req =
     (case json_parse env (req_text req) of
        NotJson \<Rightarrow> ([], Inl SyntaxError)
      | NullBody \<Rightarrow> ([], Inl TypeError)
      | Body b \<Rightarrow>
          if body_event b \<noteq> Some ''push''
          then ([], Inr (NextResponse_json (plain_body 200 ''Not a push event'') None))
          else (case body_repository b of
                  None \<Rightarrow> ([], Inl TypeError)
                | Some repoUrl \<Rightarrow>
                    (case body_ref b of
                       None \<Rightarrow> ([], Inl TypeError)
                     | Some r \<Rightarrow>
                         dispatch env req repoUrl (replace_str r ''refs/heads/'' '''') (body_after b))))"

text \<open>The \<^verbatim>\<open>try\<close> block of \<^verbatim>\<open>POST\<close>.\<close>

definition POST_try :: "hook_env \<Rightarrow> request \<Rightarrow> hook_event list \<times> (exn + response)" where
  "POST_try env req =
     (case verifyGitHubWebhook env req (req_text req) of
        (evs, Inl x) \<Rightarrow> (evs, Inl x)
      | (evs, Inr False) \<Rightarrow> (evs, Inr (NextResponse_json (plain_body 403 ''Unauthorized'') None))
      | (evs, Inr True) \<Rightarrow> (evs @ fst (handle_body env req), snd (handle_body env req)))"

text \<open>\<^verbatim>\<open>POST\<close>: the \<^verbatim>\<open>catch\<close> clause answers every exception.\<close>

definition POST :: "hook_env \<Rightarrow> request \<Rightarrow> hook_event list \<times> response" where
  "POST env req =
     (case POST_try env req of
        (evs, Inr resp) \<Rightarrow> (evs, resp)
      | (evs, Inl x) \<Rightarrow>
          (evs @ [HookConsoleError ''Webhook processing error:''],
           NextResponse_json
             ((plain_body 500 ''Internal server error'')\<lparr>json_error := Some x\<rparr>) None))"

fun is_deploy :: "hook_event \<Rightarrow> bool" where
  "is_deploy (FetchDeploy p) = True"
| "is_deploy e = False"

subsection \<open>The most recent deployment, in the words of the specification\<close>

text \<open>The deployment of a list that was created last (the later entry wins a tie).\<close>

fun most_recent :: "deployment list \<Rightarrow> deployment option" where
  "most_recent [] = None"
| "most_recent (d # ds) =
     (case most_recent ds of
        None \<Rightarrow> Some d
      | Some e \<Rightarrow> if createdAt d \<le> createdAt e then Some e else Some d)"

text \<open>The ref with the \<^verbatim>\<open>refs/heads/\<close> prefix stripped: a ref that does not start with it
  is left as it is.\<close>

definition strip_refs_heads :: "string \<Rightarrow> string" where
  "strip_refs_heads r = (if prefix ''refs/heads/'' r then drop 11 r else r)"

subsection \<open>An example push\<close>

definition older_deployment :: deployment where
  "older_deployment = \<lparr>deployment_ident = ''dep-1'', createdAt = 1, environmentVariables = Some ''old-variables''\<rparr>"

definition newer_deployment :: deployment where
  "newer_deployment = \<lparr>deployment_ident = ''dep-2'', createdAt = 2, environmentVariables = Some ''new-variables''\<rparr>"

definition demo_project :: project where
  "demo_project =
     \<lparr>project_ident = ''p1'', gitRepoUrl = ''https://github.com/o/r.git'',
      installCommand = None, buildCommand = None, projectRootDir = None,
      deployments = [older_deployment, newer_deployment]\<rparr>"

definition demo_push :: push_body where
  "demo_push =
     \<lparr>body_event = Some ''push'', body_repository = Some (Some ''https://github.com/o/r.git''),
      body_ref = Some ''refs/heads/main'', body_after = Some ''abc123''\<rparr>"

text \<open>A push of the tag \<^verbatim>\<open>refs/heads/v1\<close>.\<close>

definition demo_tag_push :: push_body where
  "demo_tag_push =
     \<lparr>body_event = Some ''push'', body_repository = Some (Some ''https://github.com/o/r.git''),
      body_ref = Some ''refs/tags/refs/heads/v1'', body_after = Some ''def456''\<rparr>"

definition demo_hook_env :: hook_env where
  "demo_hook_env =
     \<lparr>GITHUB_WEBHOOK_SECRET = Some ''s3cret'',
      hmac_sha256 = (\<lambda>secret payload. 0),
      json_parse = (\<lambda>t. if t = ''push-main'' then Body demo_push
                        else if t = ''push-tag'' then Body demo_tag_push else NotJson),
      find_project = (\<lambda>pid url. if pid = Some ''p1'' \<and> url = Some ''https://github.com/o/r.git''
                                then Inr (Some demo_project) else Inr None),
      fetch_latest_throws = (\<lambda>url branch. False),
      deploy_throws = (\<lambda>p. False)\<rparr>"

definition demo_request :: request where
  "demo_request =
     \<lparr>signature_header = Some (''sha256='' @ hex_digest 0), req_text = ''push-main'',
      projectId_param = Some ''p1''\<rparr>"

definition demo_tag_request :: request where
  "demo_tag_request =
     \<lparr>signature_header = Some (''sha256='' @ hex_digest 0), req_text = ''push-tag'',
      projectId_param = Some ''p1''\<rparr>"

section \<open>Project route: the prefixes of rename and deletion\<close>

text \<open>\<^verbatim>\<open>PATCH\<close> copies the objects under \<^verbatim>\<open>oldPrefix\<close> to \<^verbatim>\<open>newPrefix\<close>; \<^verbatim>\<open>DELETE\<close> deletes
  the objects under \<^verbatim>\<open>folderPrefix\<close>. An object is under a prefix when its key starts
  with it.\<close>

definition oldPrefix :: "string \<Rightarrow> string" where
  "oldPrefix oldSubDomain = ''__outputs/'' @ oldSubDomain @ ''/''"

definition newPrefix :: "string \<Rightarrow> string" where
  "newPrefix newSubDomain = ''__outputs/'' @ newSubDomain @ ''/''"

definition folderPrefix :: "string \<Rightarrow> string" where
  "folderPrefix subDomain = ''__outputs/'' @ subDomain @ ''/''"

section \<open>Properties of the Log Publisher and the Build Runner\<close>

lemma seq_None: "seq (evs, None) b = (evs @ fst b, snd b)"
  by (simp add: seq_def)

lemma seq_Some: "seq (evs, Some x) b = (evs, Some x)"
  by (simp add: seq_def)

lemma snd_seq: "snd (seq a b) = (case snd a of Some x \<Rightarrow> Some x | None \<Rightarrow> snd b)"
  by (cases a) (auto simp: seq_def split: option.splits)

lemma fst_seq: "fst (seq a b) = (case snd a of Some x \<Rightarrow> fst a | None \<Rightarrow> fst a @ fst b)"
  by (cases a) (auto simp: seq_def split: option.splits)

lemma seq_emit: "seq (emit e) b = (e # fst b, snd b)"
  by (simp add: seq_def emit_def)

lemma publishLog_events:
  "fst (publishLog env line) =
     (if connect_throws env line then [ProducerConnect, ConsoleError ''Error publishing log:'' BrokerError]
      else if send_throws env line
        then [ProducerConnect,
              ProducerSend ''build-logs'' ''log''
                \<lparr>msg_PROJECT_ID = PROJECT_ID env, msg_DEPLOYEMENT_ID = DEPLOYEMENT_ID env, msg_log = line\<rparr>,
              ConsoleError ''Error publishing log:'' BrokerError]
      else [ProducerConnect,
            ProducerSend ''build-logs'' ''log''
              \<lparr>msg_PROJECT_ID = PROJECT_ID env, msg_DEPLOYEMENT_ID = DEPLOYEMENT_ID env, msg_log = line\<rparr>])"
  by (simp add: publishLog_def publishLog_try_def seq_def call_def)

lemma publishLog_returns: "snd (publishLog env line) = None"
  by (simp add: publishLog_def publishLog_try_def seq_def call_def)

lemma seq_publishLog: "seq (publishLog env line) b = (fst (publishLog env line) @ fst b, snd b)"
  using publishLog_returns [of env line] by (cases "publishLog env line") (simp add: seq_def)

lemma seq_call: "seq (call e fails x) b = (if fails then ([e], Some x) else (e # fst b, snd b))"
  by (simp add: seq_def call_def)

lemma upload_files_step:
  "upload_files env (f # fs) =
     (case lstat_isDirectory env (path_join (distDir env) f) of
        None \<Rightarrow> ([], Some FsError)
      | Some True \<Rightarrow> upload_files env fs
      | Some False \<Rightarrow>
          if s3_send_throws env (put_command env f) then (upload_segment env f, Some S3Error)
          else (upload_segment env f @ fst (upload_files env fs), snd (upload_files env fs)))"
  by (simp add: seq_emit seq_publishLog seq_call throw_def upload_segment_def
      split: option.splits bool.splits)

lemma upload_files_ok:
  "snd (upload_files env fs) = None \<Longrightarrow>
     fst (upload_files env fs) = concat (map (upload_segment env) (filter (is_file env) fs))"
proof (induction fs)
  case Nil
  then show ?case by simp
next
  case (Cons f fs)
  then show ?case
    by (simp only: upload_files_step) (auto simp: is_file_def split: option.splits bool.splits if_splits)
qed

lemma upload_files_ok_sends:
  "snd (upload_files env fs) = None \<Longrightarrow> f \<in> set fs \<Longrightarrow> is_file env f \<Longrightarrow>
     \<not> s3_send_throws env (put_command env f)"
proof (induction fs)
  case Nil
  then show ?case by simp
next
  case (Cons g gs)
  then show ?case
    by (simp only: upload_files_step) (auto simp: is_file_def split: option.splits bool.splits if_splits)
qed

lemma upload_files_ok_lstat:
  "snd (upload_files env fs) = None \<Longrightarrow> f \<in> set fs \<Longrightarrow>
     lstat_isDirectory env (path_join (distDir env) f) \<noteq> None"
proof (induction fs)
  case Nil
  then show ?case by simp
next
  case (Cons g gs)
  then show ?case
    by (simp only: upload_files_step) (auto split: option.splits bool.splits if_splits)
qed







lemma close_steps_events:
  "fst (close_steps env code) =
     ConsoleLog (build_complete_line code) # fst (publishLog env (build_complete_line code))
       @ fst (read_and_upload env)"
  by (simp add: close_steps_def seq_emit seq_publishLog)

lemma close_steps_result: "snd (close_steps env code) = snd (read_and_upload env)"
  by (simp add: close_steps_def seq_emit seq_publishLog)

lemma close_finish_eq:
  "close_finish env =
     (ConsoleLog sentinel_line # fst (publishLog env sentinel_line) @ [Resolve, ProcessExit 0], None)"
  by (simp add: close_finish_def seq_emit seq_publishLog emit_def seq_None)

lemma close_handler_ok:
  "snd (close_steps env code) = None \<Longrightarrow>
     close_handler env code =
       (fst (close_steps env code) @ ConsoleLog sentinel_line # fst (publishLog env sentinel_line)
          @ [Resolve, ProcessExit 0], 0)"
  by (cases "close_steps env code") (simp add: close_handler_def close_try_def seq_None close_finish_eq)

lemma close_handler_fail:
  "snd (close_steps env code) = Some x \<Longrightarrow>
     close_handler env code =
       (fst (close_steps env code)
          @ [ConsoleError ''Error in build process close handler:'' x, Reject x, ProcessExit 1], 1)"
  by (cases "close_steps env code") (simp add: close_handler_def close_try_def seq_Some)



lemma filter_put_publishLog: "filter is_put (fst (publishLog env line)) = []"
  by (simp add: publishLog_events)

lemma filter_put_segment: "filter is_put (upload_segment env f) = [S3Send (put_command env f)]"
  by (simp add: upload_segment_def filter_put_publishLog)

lemma filter_put_segments:
  "filter is_put (concat (map (upload_segment env) fs)) = map (\<lambda>f. S3Send (put_command env f)) fs"
  by (induction fs) (simp_all add: filter_put_segment)



lemma close_steps_upload_fails:
  "readdirSync env (distDir env) = Some files \<Longrightarrow> f \<in> set files \<Longrightarrow> is_file env f \<Longrightarrow>
     s3_send_throws env (put_command env f) \<Longrightarrow> snd (close_steps env code) \<noteq> None"
  using upload_files_ok_sends [of env files f]
  by (auto simp: close_steps_result read_and_upload_def)

lemma close_steps_lstat_fails:
  "readdirSync env (distDir env) = Some files \<Longrightarrow> f \<in> set files \<Longrightarrow>
     lstat_isDirectory env (path_join (distDir env) f) = None \<Longrightarrow> snd (close_steps env code) \<noteq> None"
  using upload_files_ok_lstat [of env files f]
  by (auto simp: close_steps_result read_and_upload_def)

lemma upload_files_result_publisher:
  "snd (upload_files (env\<lparr>connect_throws := c, send_throws := s\<rparr>) fs) = snd (upload_files env fs)"
proof (induction fs)
  case Nil
  then show ?case by simp
next
  case (Cons f fs)
  have d: "distDir (env\<lparr>connect_throws := c, send_throws := s\<rparr>) = distDir env"
    by (simp add: distDir_def outputDir_def)
  have p: "put_command (env\<lparr>connect_throws := c, send_throws := s\<rparr>) f = put_command env f"
    by (simp add: put_command_def d)
  show ?case
    by (simp only: upload_files_step d p) (simp add: Cons.IH split: option.splits bool.splits)
qed

lemma close_steps_result_publisher:
  "snd (close_steps (env\<lparr>connect_throws := c, send_throws := s\<rparr>) code) = snd (close_steps env code)"
proof -
  have d: "distDir (env\<lparr>connect_throws := c, send_throws := s\<rparr>) = distDir env"
    by (simp add: distDir_def outputDir_def)
  show ?thesis
    by (simp add: close_steps_result read_and_upload_def d upload_files_result_publisher
        split: option.splits)
qed

lemma close_handler_status:
  "snd (close_handler env code) = (if snd (close_steps env code) = None then 0 else 1)"
  by (cases "snd (close_steps env code)") (simp_all add: close_handler_ok close_handler_fail)

text \<open>
  Claim C8. For every log line and every outcome of the broker calls, \<^verbatim>\<open>publishLog\<close> returns
  normally (no exception escapes it), it makes at most one send, and when connecting or
  sending throws the error is logged. The exit status of the Build Runner's close handler
  does not depend on the outcome of any publish.
\<close>

theorem publishLog_never_propagates:
  "snd (publishLog env line) = None
   \<and> length (filter is_send (fst (publishLog env line))) \<le> 1
   \<and> (connect_throws env line \<or> send_throws env line \<longrightarrow>
        ConsoleError ''Error publishing log:'' BrokerError \<in> set (fst (publishLog env line)))
   \<and> snd (close_handler (env\<lparr>connect_throws := c, send_throws := s\<rparr>) code)
        = snd (close_handler env code)"
  by (simp add: publishLog_returns publishLog_events close_handler_status
      close_steps_result_publisher)

theorem publishLog_never_propagates_witness:
  "connect_throws (demo_env\<lparr>connect_throws := (\<lambda>l. True)\<rparr>) ''Executing script...''
   \<and> snd (publishLog (demo_env\<lparr>connect_throws := (\<lambda>l. True)\<rparr>) ''Executing script...'') = None
   \<and> ConsoleError ''Error publishing log:'' BrokerError
        \<in> set (fst (publishLog (demo_env\<lparr>connect_throws := (\<lambda>l. True)\<rparr>) ''Executing script...''))"
  using publishLog_never_propagates
    [of "demo_env\<lparr>connect_throws := (\<lambda>l. True)\<rparr>" "''Executing script...''" "\<lambda>l. True" "\<lambda>l. True" "Some 0"]
  by simp

lemma demo_fields:
  "PROJECT_ID demo_env = ''p1''" "DEPLOYEMENT_ID demo_env = ''d1''"
  "S3_BUCKET_NAME demo_env = ''bucket''" "dirname demo_env = ''/home/app''"
  "connect_throws demo_env l = False" "send_throws demo_env l = False"
  "s3_send_throws demo_env c = False"
  "lstat_isDirectory demo_env p = (if p = ''/home/app/output/dist/assets'' then Some True else Some False)"
  "readdirSync demo_env d = (if d = ''/home/app/output/dist''
                          then Some [''index.html'', ''assets'', ''assets/app.js'', ''LICENSE'']
                          else None)"
  by (simp_all add: demo_env_def)

lemma demo_distDir: "distDir demo_env = ''/home/app/output/dist''"
  by (simp add: distDir_def outputDir_def path_join_def demo_fields)

lemma demo_readdir:
  "readdirSync demo_env (distDir demo_env) = Some [''index.html'', ''assets'', ''assets/app.js'', ''LICENSE'']"
  by (simp add: demo_distDir demo_fields)

lemma demo_is_file:
  "is_file demo_env ''index.html''" "\<not> is_file demo_env ''assets''"
  "is_file demo_env ''assets/app.js''" "is_file demo_env ''LICENSE''"
  by (simp_all add: is_file_def demo_distDir path_join_def demo_fields)

lemma demo_ok: "snd (close_steps demo_env (Some 0)) = None"
  by (simp add: close_steps_result read_and_upload_def demo_readdir upload_files_step
      demo_distDir path_join_def demo_fields del: upload_files.simps(2))




lemma demo_puts:
  "map (\<lambda>f. S3Send (put_command demo_env f))
       (filter (is_file demo_env) [''index.html'', ''assets'', ''assets/app.js'', ''LICENSE''])
   = [S3Send (put_command demo_env ''index.html''), S3Send (put_command demo_env ''assets/app.js''),
      S3Send (put_command demo_env ''LICENSE'')]"
  by (simp add: demo_is_file)


lemma close_handler_events_ok:
  assumes "readdirSync env (distDir env) = Some files" and "snd (close_steps env code) = None"
  shows "fst (close_handler env code) =
     (ConsoleLog (build_complete_line code) # fst (publishLog env (build_complete_line code)))
     @ concat (map (upload_segment env) (filter (is_file env) files))
     @ (ConsoleLog sentinel_line # fst (publishLog env sentinel_line) @ [Resolve, ProcessExit 0])"
proof -
  have "snd (upload_files env files) = None"
    using assms by (simp add: close_steps_result read_and_upload_def)
  then have "fst (read_and_upload env) = concat (map (upload_segment env) (filter (is_file env) files))"
    using assms(1) by (simp add: read_and_upload_def upload_files_ok)
  then show ?thesis
    using assms(2) by (simp add: close_handler_ok close_steps_events)
qed



lemma demo_mime:
  "mime_lookup demo_env p = (if p = ''/home/app/output/dist/index.html'' then Some ''text/html''
                          else if p = ''/home/app/output/dist/assets/app.js''
                          then Some ''application/javascript'' else None)"
  by (simp add: demo_env_def)

lemma demo_put_commands:
  "put_command demo_env ''index.html'' =
     \<lparr>Bucket = ''bucket'', Key = ''__outputs/p1/index.html'',
      Body = ''/home/app/output/dist/index.html'', ContentType = Some ''text/html''\<rparr>"
  "put_command demo_env ''assets/app.js'' =
     \<lparr>Bucket = ''bucket'', Key = ''__outputs/p1/assets/app.js'',
      Body = ''/home/app/output/dist/assets/app.js'', ContentType = Some ''application/javascript''\<rparr>"
  "put_command demo_env ''LICENSE'' =
     \<lparr>Bucket = ''bucket'', Key = ''__outputs/p1/LICENSE'',
      Body = ''/home/app/output/dist/LICENSE'', ContentType = None\<rparr>"
  by (simp_all add: put_command_def demo_distDir path_join_def demo_fields demo_mime)

lemma demo_put_set:
  "S3Send c \<in> set (fst (close_handler demo_env (Some 0))) \<longleftrightarrow>
     c = put_command demo_env ''index.html'' \<or> c = put_command demo_env ''assets/app.js''
     \<or> c = put_command demo_env ''LICENSE''"
proof -
  have "S3Send c \<in> set (fst (close_handler demo_env (Some 0))) \<longleftrightarrow>
        S3Send c \<in> set (filter is_put (fst (close_handler demo_env (Some 0))))"
    by simp
  also have "filter is_put (fst (close_handler demo_env (Some 0))) =
     [S3Send (put_command demo_env ''index.html''), S3Send (put_command demo_env ''assets/app.js''),
      S3Send (put_command demo_env ''LICENSE'')]"
    by (simp add: close_handler_events_ok [OF demo_readdir demo_ok] filter_put_publishLog
        filter_put_segments filter_put_segment demo_is_file)
  finally show ?thesis by auto
qed







lemma on_data_events:
  "fst (on_data env (Stdout d)) = ConsoleLog d # fst (publishLog env d)"
  "fst (on_data env (Stderr d)) = ConsoleErrorText ''Error:'' d # fst (publishLog env d)"
  by (simp_all add: seq_emit)





















section \<open>Properties of the Log Consumer\<close>

lemma store_message_events:
  "fst (store_message env eid part m dep line) =
     (if insert_throws env m then [insert_event eid dep line, ConsoleLogErr StoreError]
      else if commit_throws env m
        then [insert_event eid dep line, ConsoleLogQueryId, commit_event part m, ConsoleLogErr BrokerError]
      else if heartbeat_throws env m
        then [insert_event eid dep line, ConsoleLogQueryId, commit_event part m, Heartbeat,
              ConsoleLogErr BrokerError]
      else [insert_event eid dep line, ConsoleLogQueryId, commit_event part m, Heartbeat])"
  by (simp add: store_message_def insert_and_commit_def seq_def call_def emit_def)

lemma store_message_returns: "snd (store_message env eid part m dep line) = None"
  by (simp add: store_message_def insert_and_commit_def seq_def call_def emit_def)

lemma each_message_skip:
  "msg_payload m = None \<Longrightarrow>
     each_message env eid part flag (m # ms) = each_message env eid part flag ms"
  by simp

lemma each_message_line:
  "msg_payload m = Some (Parsed dep (Some line)) \<Longrightarrow>
     each_message env eid part flag (m # ms) =
       (ConsoleLogEntry (Some line) dep # fst (store_message env eid part m dep line)
          @ fst (each_message env eid part (flag \<or> includes_str line ''Upload complete'') ms),
        snd (each_message env eid part (flag \<or> includes_str line ''Upload complete'') ms))"
  using store_message_returns [of env eid part m dep line]
  by (cases "store_message env eid part m dep line")
     (simp split: prod.splits)

lemma decodes_cases:
  "decodes m \<Longrightarrow> msg_payload m = None \<or> (\<exists>dep line. msg_payload m = Some (Parsed dep (Some line)))"
  by (auto simp: decodes_def split: option.splits payload.splits)

lemma each_message_returns:
  "\<forall>m\<in>set ms. decodes m \<Longrightarrow> snd (snd (each_message env eid part flag ms)) = None"
proof (induction ms arbitrary: flag)
  case Nil
  then show ?case by simp
next
  case (Cons m ms)
  then have "decodes m" and rest: "\<forall>m\<in>set ms. decodes m" by simp_all
  from decodes_cases [OF \<open>decodes m\<close>] show ?case
  proof
    assume "msg_payload m = None"
    then show ?thesis using Cons.IH [OF rest] by (simp only: each_message_skip)
  next
    assume "\<exists>dep line. msg_payload m = Some (Parsed dep (Some line))"
    then obtain dep line where p: "msg_payload m = Some (Parsed dep (Some line))" by blast
    show ?thesis
      using Cons.IH [OF rest, of "flag \<or> includes_str line ''Upload complete''"]
      by (simp only: each_message_line [OF p]) simp
  qed
qed

lemma each_message_flag:
  "\<forall>m\<in>set ms. decodes m \<Longrightarrow>
     fst (snd (each_message env eid part flag ms)) = (flag \<or> (\<exists>m\<in>set ms. has_sentinel m))"
proof (induction ms arbitrary: flag)
  case Nil
  then show ?case by simp
next
  case (Cons m ms)
  then have "decodes m" and rest: "\<forall>m\<in>set ms. decodes m" by simp_all
  from decodes_cases [OF \<open>decodes m\<close>] show ?case
  proof
    assume n: "msg_payload m = None"
    then have "\<not> has_sentinel m" by (simp add: has_sentinel_def)
    then show ?thesis using Cons.IH [OF rest, of flag] n by (simp only: each_message_skip) simp
  next
    assume "\<exists>dep line. msg_payload m = Some (Parsed dep (Some line))"
    then obtain dep line where p: "msg_payload m = Some (Parsed dep (Some line))" by blast
    then have s: "has_sentinel m = includes_str line ''Upload complete''"
      by (simp add: has_sentinel_def)
    show ?thesis
      using Cons.IH [OF rest, of "flag \<or> includes_str line ''Upload complete''"] s
      by (simp only: each_message_line [OF p]) auto
  qed
qed

lemma store_message_inserts:
  "filter is_insert (fst (store_message env eid part m dep line)) = [insert_event eid dep line]"
  by (simp add: store_message_events insert_event_def commit_event_def)

lemma store_message_commits:
  "filter is_commit (fst (store_message env eid part m dep line)) =
     (if insert_throws env m then [] else [commit_event part m])"
  by (simp add: store_message_events insert_event_def commit_event_def)

lemma store_message_no_exit:
  "e \<in> set (fst (store_message env eid part m dep line)) \<Longrightarrow> e \<noteq> ConsumerDisconnect \<and> \<not> is_exit e"
  by (auto simp: store_message_events insert_event_def commit_event_def split: if_splits)

lemma store_message_commit_origin:
  "CommitOffsets t p off \<in> set (fst (store_message env eid part m dep line)) \<Longrightarrow>
     off = msg_offset m \<and> \<not> insert_throws env m"
  by (auto simp: store_message_events insert_event_def commit_event_def split: if_splits)

lemma each_message_inserts:
  "\<forall>m\<in>set ms. decodes m \<Longrightarrow>
     filter is_insert (fst (each_message env eid part flag ms)) =
       map (message_insert eid) (filter has_value ms)"
proof (induction ms arbitrary: flag)
  case Nil
  then show ?case by simp
next
  case (Cons m ms)
  then have "decodes m" and rest: "\<forall>m\<in>set ms. decodes m" by simp_all
  from decodes_cases [OF \<open>decodes m\<close>] show ?case
  proof
    assume n: "msg_payload m = None"
    then show ?thesis using Cons.IH [OF rest, of flag]
      by (simp only: each_message_skip) (simp add: has_value_def)
  next
    assume "\<exists>dep line. msg_payload m = Some (Parsed dep (Some line))"
    then obtain dep line where p: "msg_payload m = Some (Parsed dep (Some line))" by blast
    then have r: "message_insert eid m = insert_event eid dep line" "has_value m"
      by (simp_all add: message_insert_def has_value_def)
    show ?thesis
      using Cons.IH [OF rest, of "flag \<or> includes_str line ''Upload complete''"] r
      by (simp only: each_message_line [OF p]) (simp add: store_message_inserts)
  qed
qed

lemma each_message_commits:
  "\<forall>m\<in>set ms. decodes m \<Longrightarrow>
     filter is_commit (fst (each_message env eid part flag ms)) =
       map (commit_event part) (filter (\<lambda>m. has_value m \<and> \<not> insert_throws env m) ms)"
proof (induction ms arbitrary: flag)
  case Nil
  then show ?case by simp
next
  case (Cons m ms)
  then have "decodes m" and rest: "\<forall>m\<in>set ms. decodes m" by simp_all
  from decodes_cases [OF \<open>decodes m\<close>] show ?case
  proof
    assume n: "msg_payload m = None"
    then show ?thesis using Cons.IH [OF rest, of flag]
      by (simp only: each_message_skip) (simp add: has_value_def)
  next
    assume "\<exists>dep line. msg_payload m = Some (Parsed dep (Some line))"
    then obtain dep line where p: "msg_payload m = Some (Parsed dep (Some line))" by blast
    then have r: "has_value m" by (simp add: has_value_def)
    show ?thesis
      using Cons.IH [OF rest, of "flag \<or> includes_str line ''Upload complete''"] r
      by (simp only: each_message_line [OF p]) (simp add: store_message_commits)
  qed
qed

lemma store_message_pair:
  "store_message env eid part m dep line = (evs, r) \<Longrightarrow>
     evs = fst (store_message env eid part m dep line) \<and> r = None"
  using store_message_returns [of env eid part m dep line] by simp

lemma each_message_no_exit:
  "e \<in> set (fst (each_message env eid part flag ms)) \<Longrightarrow> e \<noteq> ConsumerDisconnect \<and> \<not> is_exit e"
proof (induction ms arbitrary: flag)
  case Nil
  then show ?case by simp
next
  case (Cons m ms)
  show ?case
  proof (cases "msg_payload m")
    case None
    then show ?thesis using Cons by simp
  next
    case (Some pl)
    show ?thesis
    proof (cases pl)
      case Malformed
      then show ?thesis using Cons.prems Some by simp
    next
      case JsonNull
      then show ?thesis using Cons.prems Some by simp
    next
      case (Parsed dep l)
      show ?thesis
      proof (cases l)
        case None
        then show ?thesis using Cons.prems Some Parsed by auto
      next
        case (Some line)
        with Parsed \<open>msg_payload m = Some pl\<close>
        have p: "msg_payload m = Some (Parsed dep (Some line))" by simp
        from Cons.prems have "e = ConsoleLogEntry (Some line) dep
            \<or> e \<in> set (fst (store_message env eid part m dep line))
            \<or> e \<in> set (fst (each_message env eid part (flag \<or> includes_str line ''Upload complete'') ms))"
          by (simp only: each_message_line [OF p]) auto
        then show ?thesis using Cons.IH store_message_no_exit by fastforce
      qed
    qed
  qed
qed

lemma each_message_commit_origin:
  "CommitOffsets t p off \<in> set (fst (each_message env eid part flag ms)) \<Longrightarrow>
     \<exists>m\<in>set ms. off = msg_offset m \<and> \<not> insert_throws env m"
proof (induction ms arbitrary: flag)
  case Nil
  then show ?case by simp
next
  case (Cons m ms)
  show ?case
  proof (cases "msg_payload m")
    case None
    then show ?thesis using Cons by simp
  next
    case (Some pl)
    show ?thesis
    proof (cases pl)
      case Malformed
      then show ?thesis using Cons.prems Some by simp
    next
      case JsonNull
      then show ?thesis using Cons.prems Some by simp
    next
      case (Parsed dep l)
      show ?thesis
      proof (cases l)
        case None
        then show ?thesis using Cons.prems Some Parsed by auto
      next
        case (Some line)
        with Parsed \<open>msg_payload m = Some pl\<close>
        have p: "msg_payload m = Some (Parsed dep (Some line))" by simp
        from Cons.prems have "CommitOffsets t p off \<in> set (fst (store_message env eid part m dep line))
            \<or> CommitOffsets t p off
                 \<in> set (fst (each_message env eid part (flag \<or> includes_str line ''Upload complete'') ms))"
          by (simp only: each_message_line [OF p]) auto
        then show ?thesis using Cons.IH store_message_commit_origin by fastforce
      qed
    qed
  qed
qed

lemma eachBatch_commit_iff:
  "CommitOffsets t p off \<in> set (fst (eachBatch env eid flag b)) \<longleftrightarrow>
     CommitOffsets t p off \<in> set (fst (each_message env eid (batch_partition b) flag (batch_messages b)))"
  by (cases "each_message env eid (batch_partition b) flag (batch_messages b)")
     (auto simp: eachBatch_def split: option.splits)

lemma eachBatch_decoded:
  assumes "\<forall>m\<in>set (batch_messages b). decodes m"
  shows "fst (eachBatch env eid flag b) =
           ConsoleLog (recv_line b) # fst (each_message env eid (batch_partition b) flag (batch_messages b))
             @ (if flag \<or> (\<exists>m\<in>set (batch_messages b). has_sentinel m)
                then ConsoleLog ''Upload complete. Exiting process...'' # ConsumerDisconnect
                       # (if disconnect_throws env then [] else [ProcessExit 0])
                else [])"
    and "fst (snd (eachBatch env eid flag b)) = (flag \<or> (\<exists>m\<in>set (batch_messages b). has_sentinel m))"
    and "snd (snd (eachBatch env eid flag b)) =
           (if flag \<or> (\<exists>m\<in>set (batch_messages b). has_sentinel m)
            then (if disconnect_throws env then Threw BrokerError else Exited 0)
            else Returned)"
  using each_message_returns [OF assms, of env eid "batch_partition b" flag]
    each_message_flag [OF assms, of env eid "batch_partition b" flag]
  by (cases "each_message env eid (batch_partition b) flag (batch_messages b)";
      auto simp: eachBatch_def)+

text \<open>
  Claim C1, as amended. When the insert of a message throws, the consumer logs the error,
  makes no second insert and goes on with the next message of the batch; the commit and the
  heartbeat stand after the insert inside the same \<^verbatim>\<open>try\<close> block, so they are skipped: in a
  batch whose offsets are pairwise distinct, no commit of that message's offset is issued.
\<close>

theorem failed_insert_logged_not_committed:
  assumes "msg_payload m = Some (Parsed dep (Some line))" and "insert_throws env m"
  shows "each_message env eid part flag (m # ms) =
           ([ConsoleLogEntry (Some line) dep, insert_event eid dep line, ConsoleLogErr StoreError]
              @ fst (each_message env eid part (flag \<or> includes_str line ''Upload complete'') ms),
            snd (each_message env eid part (flag \<or> includes_str line ''Upload complete'') ms))
         \<and> (distinct (map msg_offset (batch_messages b)) \<and> m \<in> set (batch_messages b) \<longrightarrow>
              (\<forall>t p. CommitOffsets t p (msg_offset m) \<notin> set (fst (eachBatch env eid flag b))))"
proof (intro conjI impI allI)
  show "each_message env eid part flag (m # ms) =
           ([ConsoleLogEntry (Some line) dep, insert_event eid dep line, ConsoleLogErr StoreError]
              @ fst (each_message env eid part (flag \<or> includes_str line ''Upload complete'') ms),
            snd (each_message env eid part (flag \<or> includes_str line ''Upload complete'') ms))"
    using assms(2) by (simp only: each_message_line [OF assms(1)]) (simp add: store_message_events)
next
  fix t p
  assume d: "distinct (map msg_offset (batch_messages b)) \<and> m \<in> set (batch_messages b)"
  show "CommitOffsets t p (msg_offset m) \<notin> set (fst (eachBatch env eid flag b))"
  proof
    assume "CommitOffsets t p (msg_offset m) \<in> set (fst (eachBatch env eid flag b))"
    then obtain m' where m': "m' \<in> set (batch_messages b)" "msg_offset m = msg_offset m'"
        "\<not> insert_throws env m'"
      using each_message_commit_origin by (auto simp: eachBatch_commit_iff) blast
    from d have "inj_on msg_offset (set (batch_messages b))" by (simp add: distinct_map)
    with d m' have "m' = m" by (auto dest: inj_onD)
    with m'(3) assms(2) show False by simp
  qed
qed

lemma line_at_simps:
  "msg_payload (line_at off line) = Some (Parsed (Some ''d1'') (Some line))"
  "msg_offset (line_at off line) = off"
  "decodes (line_at off line)" "has_value (line_at off line)"
  "has_sentinel (line_at off line) = includes_str line ''Upload complete''"
  "message_insert eid (line_at off line) = insert_event eid (Some ''d1'') line"
  by (simp_all add: line_at_def decodes_def has_value_def has_sentinel_def message_insert_def)

lemma tombstone_at_simps:
  "msg_payload (tombstone_at off) = None" "msg_offset (tombstone_at off) = off"
  "decodes (tombstone_at off)" "\<not> has_value (tombstone_at off)" "\<not> has_sentinel (tombstone_at off)"
  by (simp_all add: tombstone_at_def decodes_def has_value_def has_sentinel_def)

lemma garbled_at_simps:
  "msg_payload (garbled_at off) = Some Malformed" "msg_offset (garbled_at off) = off"
  by (simp_all add: garbled_at_def)

lemma calm_simps:
  "insert_throws calm_consumer m = False" "commit_throws calm_consumer m = False"
  "heartbeat_throws calm_consumer m = False" "disconnect_throws calm_consumer = False"
  "insert_throws failing_store m = True" "commit_throws failing_store m = False"
  "heartbeat_throws failing_store m = False" "disconnect_throws failing_store = False"
  by (simp_all add: calm_consumer_def failing_store_def)

lemma sentinel_found: "includes_str ''Upload complete...'' ''Upload complete''"
  by simp

lemma plain_lines:
  "\<not> includes_str ''npm install'' ''Upload complete''"
  "\<not> includes_str ''Executing script...'' ''Upload complete''"
  "\<not> includes_str ''Build complete with code 0'' ''Upload complete''"
  "\<not> includes_str ''Uploading /home/app/output/dist/index.html...'' ''Upload complete''"
  by simp_all

theorem failed_insert_logged_not_committed_witness:
  "msg_payload (line_at ''7'' ''npm install'') = Some (Parsed (Some ''d1'') (Some ''npm install''))
   \<and> insert_throws failing_store (line_at ''7'' ''npm install'')
   \<and> each_message failing_store ''e1'' 0 False [line_at ''7'' ''npm install''] =
        ([ConsoleLogEntry (Some ''npm install'') (Some ''d1''),
          insert_event ''e1'' (Some ''d1'') ''npm install'', ConsoleLogErr StoreError], False, None)
   \<and> CommitOffsets ''build-logs'' 0 ''7'' \<notin> set (fst (eachBatch failing_store ''e1'' False one_line_batch))"
proof -
  have p: "msg_payload (line_at ''7'' ''npm install'') = Some (Parsed (Some ''d1'') (Some ''npm install''))"
    by (simp add: line_at_simps)
  have f: "insert_throws failing_store (line_at ''7'' ''npm install'')"
    by (simp add: calm_simps)
  have d: "distinct (map msg_offset (batch_messages one_line_batch))
           \<and> line_at ''7'' ''npm install'' \<in> set (batch_messages one_line_batch)"
    by (simp add: one_line_batch_def)
  note T = failed_insert_logged_not_committed [OF p f, of "''e1''" 0 False "[]" one_line_batch]
  from T d have "CommitOffsets ''build-logs'' 0 (msg_offset (line_at ''7'' ''npm install''))
                   \<notin> set (fst (eachBatch failing_store ''e1'' False one_line_batch))"
    by blast
  moreover from T have "each_message failing_store ''e1'' 0 False [line_at ''7'' ''npm install''] =
        ([ConsoleLogEntry (Some ''npm install'') (Some ''d1''),
          insert_event ''e1'' (Some ''d1'') ''npm install'', ConsoleLogErr StoreError], False, None)"
    by (simp add: plain_lines)
  ultimately show ?thesis using p f by (simp add: line_at_simps)
qed

lemma one_line_events:
  "fst (each_message env eid 0 False [line_at ''7'' ''npm install'']) =
     ConsoleLogEntry (Some ''npm install'') (Some ''d1'')
       # fst (store_message env eid 0 (line_at ''7'' ''npm install'') (Some ''d1'') ''npm install'')"
  by (simp only: each_message_line [OF line_at_simps(1)]) simp

text \<open>
  Claim C1 as stated fails: the offset of a message is committed after a successful insert
  and is not committed after a failed one.
\<close>

theorem failed_insert_commit_counterexample:
  "CommitOffsets ''build-logs'' 0 ''7'' \<in> set (fst (eachBatch calm_consumer ''e1'' False one_line_batch))
   \<and> CommitOffsets ''build-logs'' 0 ''7'' \<notin> set (fst (eachBatch failing_store ''e1'' False one_line_batch))"
  by (simp add: eachBatch_commit_iff one_line_batch_def one_line_events store_message_events
      calm_simps commit_event_def insert_event_def line_at_simps del: each_message.simps(2))

lemma filter_insert_tail:
  "filter is_insert (ConsoleLog a # ConsumerDisconnect # (if c then [] else [ProcessExit 0])) = []"
  "filter is_commit (ConsoleLog a # ConsumerDisconnect # (if c then [] else [ProcessExit 0])) = []"
  by simp_all

text \<open>
  Claim C2, as amended. In a batch in which every message is either without a value or
  decodes to a record with a log line, the messages are handled in batch order: each message
  with a value gets one insert, and a commit of its offset when the insert did not throw.
  When some log line contains \<^verbatim>\<open>Upload complete\<close>, or the flag was already set when the batch
  started, the consumer disconnects after the events of all messages and, when the
  disconnect does not throw, exits with status 0. When no log line contains it and the flag
  was not set, \<^verbatim>\<open>eachBatch\<close> returns without disconnecting or exiting.
\<close>

theorem eachBatch_drains_then_exits:
  assumes "\<forall>m\<in>set (batch_messages b). decodes m"
  shows "filter is_insert (fst (eachBatch env eid flag b))
           = map (message_insert eid) (filter has_value (batch_messages b))
       \<and> filter is_commit (fst (eachBatch env eid flag b))
           = map (commit_event (batch_partition b))
               (filter (\<lambda>m. has_value m \<and> \<not> insert_throws env m) (batch_messages b))
       \<and> (flag \<or> (\<exists>m\<in>set (batch_messages b). has_sentinel m) \<longrightarrow>
            fst (eachBatch env eid flag b)
              = ConsoleLog (recv_line b)
                  # fst (each_message env eid (batch_partition b) flag (batch_messages b))
                  @ (ConsoleLog ''Upload complete. Exiting process...'' # ConsumerDisconnect
                       # (if disconnect_throws env then [] else [ProcessExit 0]))
            \<and> snd (snd (eachBatch env eid flag b))
                 = (if disconnect_throws env then Threw BrokerError else Exited 0)
            \<and> (\<forall>e\<in>set (fst (each_message env eid (batch_partition b) flag (batch_messages b))).
                  e \<noteq> ConsumerDisconnect \<and> \<not> is_exit e))
       \<and> (\<not> flag \<and> (\<forall>m\<in>set (batch_messages b). \<not> has_sentinel m) \<longrightarrow>
            snd (snd (eachBatch env eid flag b)) = Returned
            \<and> (\<forall>e\<in>set (fst (eachBatch env eid flag b)). e \<noteq> ConsumerDisconnect \<and> \<not> is_exit e))"
proof -
  note eq = eachBatch_decoded [OF assms, of env eid flag]
  note ins = each_message_inserts [OF assms, of env eid "batch_partition b" flag]
  note com = each_message_commits [OF assms, of env eid "batch_partition b" flag]
  have quiet: "\<forall>e\<in>set (fst (each_message env eid (batch_partition b) flag (batch_messages b))).
                  e \<noteq> ConsumerDisconnect \<and> \<not> is_exit e"
    using each_message_no_exit by blast
  have 1: "filter is_insert (fst (eachBatch env eid flag b))
           = map (message_insert eid) (filter has_value (batch_messages b))"
    by (simp add: eq ins)
  have 2: "filter is_commit (fst (eachBatch env eid flag b))
           = map (commit_event (batch_partition b))
               (filter (\<lambda>m. has_value m \<and> \<not> insert_throws env m) (batch_messages b))"
    by (simp add: eq com)
  have 3: "flag \<or> (\<exists>m\<in>set (batch_messages b). has_sentinel m) \<longrightarrow>
            fst (eachBatch env eid flag b)
              = ConsoleLog (recv_line b)
                  # fst (each_message env eid (batch_partition b) flag (batch_messages b))
                  @ (ConsoleLog ''Upload complete. Exiting process...'' # ConsumerDisconnect
                       # (if disconnect_throws env then [] else [ProcessExit 0]))
            \<and> snd (snd (eachBatch env eid flag b))
                 = (if disconnect_throws env then Threw BrokerError else Exited 0)
            \<and> (\<forall>e\<in>set (fst (each_message env eid (batch_partition b) flag (batch_messages b))).
                  e \<noteq> ConsumerDisconnect \<and> \<not> is_exit e)"
    using quiet by (simp add: eq)
  have 4: "\<not> flag \<and> (\<forall>m\<in>set (batch_messages b). \<not> has_sentinel m) \<longrightarrow>
            snd (snd (eachBatch env eid flag b)) = Returned
            \<and> (\<forall>e\<in>set (fst (eachBatch env eid flag b)). e \<noteq> ConsumerDisconnect \<and> \<not> is_exit e)"
  proof (intro impI)
    assume "\<not> flag \<and> (\<forall>m\<in>set (batch_messages b). \<not> has_sentinel m)"
    then have c: "(flag \<or> (\<exists>m\<in>set (batch_messages b). has_sentinel m)) = False" by blast
    have a: "fst (eachBatch env eid flag b)
               = ConsoleLog (recv_line b)
                   # fst (each_message env eid (batch_partition b) flag (batch_messages b))"
      by (simp only: eq(1) c if_False append_Nil2)
    have r: "snd (snd (eachBatch env eid flag b)) = Returned"
      by (simp only: eq(3) c if_False)
    show "snd (snd (eachBatch env eid flag b)) = Returned
            \<and> (\<forall>e\<in>set (fst (eachBatch env eid flag b)). e \<noteq> ConsumerDisconnect \<and> \<not> is_exit e)"
      using quiet by (auto simp: a r)
  qed
  from 1 2 3 4 show ?thesis by blast
qed

lemma five_fields:
  "batch_partition five_line_batch = 0"
  "batch_messages five_line_batch =
     [line_at ''0'' ''Executing script...'', line_at ''1'' ''npm install'',
      line_at ''2'' ''Build complete with code 0'',
      line_at ''3'' ''Uploading /home/app/output/dist/index.html...'',
      line_at ''4'' ''Upload complete...'']"
  by (simp_all add: five_line_batch_def)

lemma five_decodes: "\<forall>m\<in>set (batch_messages five_line_batch). decodes m"
  by (simp add: five_line_batch_def line_at_simps)

lemma five_sentinel: "\<exists>m\<in>set (batch_messages five_line_batch). has_sentinel m"
  by (simp add: five_line_batch_def line_at_simps sentinel_found)

lemma one_decodes: "\<forall>m\<in>set (batch_messages one_line_batch). decodes m"
  by (simp add: one_line_batch_def line_at_simps)

lemma one_plain: "\<forall>m\<in>set (batch_messages one_line_batch). \<not> has_sentinel m"
  by (simp add: one_line_batch_def line_at_simps plain_lines)

theorem eachBatch_drains_then_exits_witness:
  "filter is_commit (fst (eachBatch calm_consumer ''e1'' False five_line_batch))
      = [CommitOffsets ''build-logs'' 0 ''0'', CommitOffsets ''build-logs'' 0 ''1'',
         CommitOffsets ''build-logs'' 0 ''2'', CommitOffsets ''build-logs'' 0 ''3'',
         CommitOffsets ''build-logs'' 0 ''4'']
   \<and> length (filter is_insert (fst (eachBatch calm_consumer ''e1'' False five_line_batch))) = 5
   \<and> snd (snd (eachBatch calm_consumer ''e1'' False five_line_batch)) = Exited 0
   \<and> snd (snd (eachBatch calm_consumer ''e1'' False one_line_batch)) = Returned"
proof -
  note five = eachBatch_drains_then_exits [OF five_decodes, of calm_consumer "''e1''" False]
  note one = eachBatch_drains_then_exits [OF one_decodes, of calm_consumer "''e1''" False]
  have "snd (snd (eachBatch calm_consumer ''e1'' False five_line_batch)) = Exited 0"
    using five five_sentinel by (simp add: calm_simps)
  moreover have "snd (snd (eachBatch calm_consumer ''e1'' False one_line_batch)) = Returned"
    using one one_plain by simp
  moreover have "filter is_commit (fst (eachBatch calm_consumer ''e1'' False five_line_batch))
      = [CommitOffsets ''build-logs'' 0 ''0'', CommitOffsets ''build-logs'' 0 ''1'',
         CommitOffsets ''build-logs'' 0 ''2'', CommitOffsets ''build-logs'' 0 ''3'',
         CommitOffsets ''build-logs'' 0 ''4'']"
    using conjunct1 [OF conjunct2 [OF five]]
    by (simp add: five_fields line_at_simps calm_simps commit_event_def)
  moreover have "length (filter is_insert (fst (eachBatch calm_consumer ''e1'' False five_line_batch))) = 5"
    using conjunct1 [OF five] by (simp add: five_fields line_at_simps)
  ultimately show ?thesis by blast
qed

lemma tombstone_decodes: "\<forall>m\<in>set (batch_messages tombstone_batch). decodes m"
  by (simp add: tombstone_batch_def line_at_simps tombstone_at_simps)

lemma tombstone_run:
  "snd (snd (eachBatch calm_consumer ''e1'' False tombstone_batch)) = Exited 0"
  "filter is_insert (fst (eachBatch calm_consumer ''e1'' False tombstone_batch))
     = [insert_event ''e1'' (Some ''d1'') ''Upload complete...'']"
  "filter is_commit (fst (eachBatch calm_consumer ''e1'' False tombstone_batch))
     = [CommitOffsets ''build-logs'' 0 ''1'']"
proof -
  note eq = eachBatch_decoded [OF tombstone_decodes, of calm_consumer "''e1''" False]
  have s: "\<exists>m\<in>set (batch_messages tombstone_batch). has_sentinel m"
    by (simp add: tombstone_batch_def line_at_simps sentinel_found)
  show "snd (snd (eachBatch calm_consumer ''e1'' False tombstone_batch)) = Exited 0"
    using s by (simp add: eq(3) calm_simps)
  show "filter is_insert (fst (eachBatch calm_consumer ''e1'' False tombstone_batch))
     = [insert_event ''e1'' (Some ''d1'') ''Upload complete...'']"
    using s by (simp add: eq(1) each_message_inserts [OF tombstone_decodes])
      (simp add: tombstone_batch_def line_at_simps tombstone_at_simps)
  show "filter is_commit (fst (eachBatch calm_consumer ''e1'' False tombstone_batch))
     = [CommitOffsets ''build-logs'' 0 ''1'']"
    using s by (simp add: eq(1) each_message_commits [OF tombstone_decodes])
      (simp add: tombstone_batch_def line_at_simps tombstone_at_simps calm_simps commit_event_def)
qed

lemma garbled_run:
  "eachBatch calm_consumer ''e1'' False garbled_batch =
     (ConsoleLog (recv_line garbled_batch) # ConsoleLogEntry (Some ''Upload complete...'') (Some ''d1'')
        # fst (store_message calm_consumer ''e1'' 0 (line_at ''0'' ''Upload complete...'') (Some ''d1'')
                 ''Upload complete...''),
      True, Threw SyntaxError)"
proof -
  have "each_message calm_consumer ''e1'' 0 False
          [line_at ''0'' ''Upload complete...'', garbled_at ''1'']
        = (ConsoleLogEntry (Some ''Upload complete...'') (Some ''d1'')
             # fst (store_message calm_consumer ''e1'' 0 (line_at ''0'' ''Upload complete...'') (Some ''d1'')
                 ''Upload complete...''),
           True, Some SyntaxError)"
    by (simp only: each_message_line [OF line_at_simps(1)])
       (simp add: garbled_at_simps)
  then show ?thesis by (simp add: eachBatch_def garbled_batch_def)
qed

lemma later_decodes: "\<forall>m\<in>set (batch_messages later_batch). decodes m"
  by (simp add: later_batch_def line_at_simps)

text \<open>
  Claim C2 as stated fails in three ways. A message without a value is skipped: the batch
  of two messages ends the process with one insert and one commit. A message that is no JSON
  throws out of the loop: the batch holds the sentinel and the process does not exit. The
  flag set in that batch is still set in the next one, which exits without holding the
  sentinel.
\<close>

theorem eachBatch_exit_counterexample:
  "snd (snd (eachBatch calm_consumer ''e1'' False tombstone_batch)) = Exited 0
   \<and> length (batch_messages tombstone_batch) = 2
   \<and> filter is_insert (fst (eachBatch calm_consumer ''e1'' False tombstone_batch))
        = [insert_event ''e1'' (Some ''d1'') ''Upload complete...'']
   \<and> filter is_commit (fst (eachBatch calm_consumer ''e1'' False tombstone_batch))
        = [CommitOffsets ''build-logs'' 0 ''1'']
   \<and> has_sentinel (line_at ''0'' ''Upload complete...'')
   \<and> line_at ''0'' ''Upload complete...'' \<in> set (batch_messages garbled_batch)
   \<and> snd (snd (eachBatch calm_consumer ''e1'' False garbled_batch)) = Threw SyntaxError
   \<and> fst (snd (eachBatch calm_consumer ''e1'' False garbled_batch)) = True
   \<and> \<not> has_sentinel (line_at ''2'' ''npm install'')
   \<and> batch_messages later_batch = [line_at ''2'' ''npm install'']
   \<and> snd (snd (eachBatch calm_consumer ''e1''
                  (fst (snd (eachBatch calm_consumer ''e1'' False garbled_batch))) later_batch))
        = Exited 0"
  by (simp add: tombstone_run garbled_run eachBatch_decoded [OF later_decodes] calm_simps
      line_at_simps sentinel_found plain_lines)
     (simp add: tombstone_batch_def garbled_batch_def later_batch_def)

section \<open>Properties of the Webhook Dispatcher\<close>

lemma length_hex_digest: "length (hex_digest w) = 64"
  by (simp add: hex_digest_def)

lemma verify_cases:
  "verifyGitHubWebhook env req payload =
     (if signature_header req = None \<or> signature_header req = Some []
      then ([HookConsoleError ''No GitHub signature header found''], Inr False)
      else if GITHUB_WEBHOOK_SECRET env = None \<or> GITHUB_WEBHOOK_SECRET env = Some []
      then ([HookConsoleError ''GitHub webhook secret is not set''], Inr False)
      else ([], timingSafeEqual
                  (''sha256='' @ hex_digest (hmac_sha256 env (the (GITHUB_WEBHOOK_SECRET env)) payload))
                  (the (signature_header req))))"
  by (auto simp: verifyGitHubWebhook_def split: option.splits)

lemma verify_short_header:
  "verifyGitHubWebhook (env\<lparr>GITHUB_WEBHOOK_SECRET := Some ''s3cret''\<rparr>)
      (req\<lparr>signature_header := Some ''sha256=abc''\<rparr>) payload = ([], Inl RangeError)"
  by (simp add: verifyGitHubWebhook_def timingSafeEqual_def length_hex_digest)

lemma verify_same_length:
  assumes "signature_header req = Some h" and "GITHUB_WEBHOOK_SECRET env = Some secret"
    and "secret \<noteq> []" and "length h = 71"
  shows "verifyGitHubWebhook env req payload
           = ([], Inr (h = ''sha256='' @ hex_digest (hmac_sha256 env secret payload)))"
proof -
  have "h \<noteq> []" using assms(4) by auto
  then show ?thesis
    using assms by (auto simp: verifyGitHubWebhook_def timingSafeEqual_def length_hex_digest)
qed

lemma POST_http_status: "http_status (snd (POST env req)) = 200"
  by (auto simp: POST_def POST_try_def handle_body_def dispatch_def NextResponse_json_def
      split: prod.splits sum.splits bool.splits parsed_body.splits option.splits)

text \<open>
  Claim C5. The claim says that verification returns false whenever the digest does not
  match the header. With a secret configured and a header whose length is not that of
  \<^verbatim>\<open>sha256=\<close> followed by 64 digits, \<^verbatim>\<open>timingSafeEqual\<close> throws instead: verification returns
  nothing, and the handler answers through its \<^verbatim>\<open>catch\<close> clause with status 500 in the body.
\<close>

theorem verify_throws_on_length_mismatch:
  "verifyGitHubWebhook (env\<lparr>GITHUB_WEBHOOK_SECRET := Some ''s3cret''\<rparr>)
      (req\<lparr>signature_header := Some ''sha256=abc''\<rparr>) payload = ([], Inl RangeError)
   \<and> json_status (body (snd (POST (env\<lparr>GITHUB_WEBHOOK_SECRET := Some ''s3cret''\<rparr>)
                                (req\<lparr>signature_header := Some ''sha256=abc''\<rparr>)))) = 500"
  by (simp add: POST_def POST_try_def verify_short_header NextResponse_json_def plain_body_def)

text \<open>
  Claim C6. The claim says that the HTTP status of the response is 403 on a signature
  failure and 500 on an unexpected error. Every response of the handler is built by
  \<^verbatim>\<open>NextResponse.json\<close> without an \<^verbatim>\<open>init\<close> argument: its HTTP status is 200, and 403 and 500
  are only the \<^verbatim>\<open>status\<close> field of the JSON body.
\<close>

theorem POST_status_only_in_body:
  "http_status (snd (POST env req)) = 200
   \<and> snd (POST env (req\<lparr>signature_header := None\<rparr>))
        = \<lparr>http_status = 200, body = plain_body 403 ''Unauthorized''\<rparr>
   \<and> snd (POST (env\<lparr>json_parse := (\<lambda>t. NotJson), GITHUB_WEBHOOK_SECRET := Some ''s3cret'',
                      hmac_sha256 := (\<lambda>s p. 0)\<rparr>)
                 (req\<lparr>signature_header := Some (''sha256='' @ hex_digest 0)\<rparr>))
        = \<lparr>http_status = 200,
           body = (plain_body 500 ''Internal server error'')\<lparr>json_error := Some SyntaxError\<rparr>\<rparr>"
  by (simp add: POST_http_status)
     (simp add: POST_def POST_try_def verifyGitHubWebhook_def timingSafeEqual_def handle_body_def
        NextResponse_json_def)

lemma replace_str_prefix: "replace_str (pat @ rest) pat rep = rep @ rest"
proof (cases "pat @ rest")
  case Nil
  then show ?thesis by simp
next
  case (Cons a list)
  have "prefix pat (a # list)" unfolding Cons [symmetric] by simp
  then have "replace_str (a # list) pat rep = rep @ drop (length pat) (a # list)" by simp
  then show ?thesis unfolding Cons [symmetric] by simp
qed

lemma replace_refs_heads:
  "prefix ''refs/heads/'' r \<Longrightarrow> replace_str r ''refs/heads/'' '''' = drop 11 r"
proof -
  assume "prefix ''refs/heads/'' r"
  then obtain rest where r: "r = ''refs/heads/'' @ rest" by (auto simp: prefix_def)
  have "replace_str (''refs/heads/'' @ rest) ''refs/heads/'' '''' = '''' @ rest"
    by (rule replace_str_prefix)
  then show ?thesis by (simp add: r)
qed

lemma POST_push_events:
  assumes "snd (verifyGitHubWebhook env req (req_text req)) = Inr True"
    and "json_parse env (req_text req) = Body b"
    and "body_event b = Some ''push''"
    and "body_repository b = Some repoUrl"
    and "body_ref b = Some r"
    and "find_project env (projectId_param req) repoUrl = Inr (Some p)"
    and "\<not> fetch_latest_throws env repoUrl (replace_str r ''refs/heads/'' '''')"
  shows "filter is_deploy (fst (POST env req))
           = [FetchDeploy (deploymentPayload p repoUrl (replace_str r ''refs/heads/'' '''') (body_after b))]"
proof -
  have v: "filter is_deploy (fst (verifyGitHubWebhook env req (req_text req))) = []"
    by (auto simp: verifyGitHubWebhook_def split: option.splits)
  have h: "filter is_deploy (fst (handle_body env req))
           = [FetchDeploy (deploymentPayload p repoUrl (replace_str r ''refs/heads/'' '''') (body_after b))]"
    using assms(2-7) by (simp add: handle_body_def dispatch_def)
  show ?thesis
    using assms(1) v h
    by (cases "verifyGitHubWebhook env req (req_text req)")
       (auto simp: POST_def POST_try_def split: sum.splits)
qed

lemma demo_hook_fields:
  "GITHUB_WEBHOOK_SECRET demo_hook_env = Some ''s3cret''"
  "hmac_sha256 demo_hook_env s t = 0"
  "json_parse demo_hook_env ''push-main'' = Body demo_push"
  "find_project demo_hook_env (Some ''p1'') (Some ''https://github.com/o/r.git'') = Inr (Some demo_project)"
  "fetch_latest_throws demo_hook_env u br = False"
  "deploy_throws demo_hook_env pl = False"
  by (simp_all add: demo_hook_env_def)

lemma demo_request_fields:
  "signature_header demo_request = Some (''sha256='' @ hex_digest 0)"
  "req_text demo_request = ''push-main''"
  "projectId_param demo_request = Some ''p1''"
  by (simp_all add: demo_request_def)

lemma demo_push_fields:
  "body_event demo_push = Some ''push''"
  "body_repository demo_push = Some (Some ''https://github.com/o/r.git'')"
  "body_ref demo_push = Some ''refs/heads/main''"
  "body_after demo_push = Some ''abc123''"
  by (simp_all add: demo_push_def)

lemma demo_verify:
  "snd (verifyGitHubWebhook demo_hook_env demo_request (req_text demo_request)) = Inr True"
  by (simp add: verifyGitHubWebhook_def demo_request_fields demo_hook_fields timingSafeEqual_def)

lemma demo_branch: "replace_str ''refs/heads/main'' ''refs/heads/'' '''' = ''main''"
  by simp

lemma demo_payload:
  "deploymentPayload demo_project (Some ''https://github.com/o/r.git'') ''main'' (Some ''abc123'')
     = \<lparr>p_projectId = ''p1'', p_gitBranchName = ''main'',
        p_gitRepoUrl = Some ''https://github.com/o/r.git'', p_gitCommitHash = Some ''abc123'',
        p_buildCommand = ''npm run build'', p_installCommand = ''npm install'',
        p_projectRootDir = ''./'', p_environmentVariables = Serialized ''old-variables''\<rparr>"
  by (simp add: deploymentPayload_def demo_project_def or_default_def first_environment_def
      older_deployment_def)

lemma replace_str_first:
  "\<forall>i<length pre. \<not> prefix pat (drop i (pre @ pat @ post)) \<Longrightarrow>
     replace_str (pre @ pat @ post) pat rep = pre @ rep @ post"
proof (induction pre)
  case Nil
  show ?case using replace_str_prefix [of pat post rep] by simp
next
  case (Cons c pre)
  from Cons.prems have "\<not> prefix pat (drop 0 ((c # pre) @ pat @ post))" by blast
  then have n: "\<not> prefix pat (c # pre @ pat @ post)" by simp
  have "\<forall>i<length pre. \<not> prefix pat (drop i (pre @ pat @ post))"
  proof (intro allI impI)
    fix i assume "i < length pre"
    then have "Suc i < length (c # pre)" by simp
    with Cons.prems have "\<not> prefix pat (drop (Suc i) ((c # pre) @ pat @ post))" by blast
    then show "\<not> prefix pat (drop i (pre @ pat @ post))" by simp
  qed
  then have "replace_str (pre @ pat @ post) pat rep = pre @ rep @ post" by (rule Cons.IH)
  then show ?case using n by simp
qed

lemma replace_str_absent:
  "pat \<noteq> [] \<Longrightarrow> \<forall>i. \<not> prefix pat (drop i r) \<Longrightarrow> replace_str r pat rep = r"
proof (induction r)
  case Nil
  then show ?case by simp
next
  case (Cons c r)
  from Cons.prems(2) have "\<not> prefix pat (drop 0 (c # r))" by blast
  then have n: "\<not> prefix pat (c # r)" by simp
  have "\<forall>i. \<not> prefix pat (drop i r)"
  proof
    fix i
    from Cons.prems(2) have "\<not> prefix pat (drop (Suc i) (c # r))" by blast
    then show "\<not> prefix pat (drop i r)" by simp
  qed
  with Cons.IH Cons.prems(1) have "replace_str r pat rep = r" by blast
  then show ?case using n by simp
qed

text \<open>
  Claim C9, as amended. For a verified push event that matches a stored project, when the
  lookup of the latest commit does not throw, the handler sends exactly one deployment
  request. Its branch is the ref with the first occurrence of \<^verbatim>\<open>refs/heads/\<close> removed,
  wherever it stands: the prefix when the ref starts with it, and the ref itself when the
  text does not occur. The commit hash is the field \<^verbatim>\<open>after\<close>; the commands and the root
  directory are the project's values, or else \<^verbatim>\<open>npm run build\<close>, \<^verbatim>\<open>npm install\<close> and \<^verbatim>\<open>./\<close> when
  the value is missing or empty; the environment variables are those of the first
  deployment in the list the store returned, and the empty object when there is none.
\<close>

theorem push_assembles_deployment_request:
  assumes "snd (verifyGitHubWebhook env req (req_text req)) = Inr True"
    and "json_parse env (req_text req) = Body b"
    and "body_event b = Some ''push''"
    and "body_repository b = Some repoUrl"
    and "body_ref b = Some r"
    and "find_project env (projectId_param req) repoUrl = Inr (Some p)"
    and "\<not> fetch_latest_throws env repoUrl (replace_str r ''refs/heads/'' '''')"
  shows "filter is_deploy (fst (POST env req))
           = [FetchDeploy
                \<lparr>p_projectId = project_ident p,
                 p_gitBranchName = replace_str r ''refs/heads/'' '''',
                 p_gitRepoUrl = repoUrl,
                 p_gitCommitHash = body_after b,
                 p_buildCommand =
                   (case buildCommand p of None \<Rightarrow> ''npm run build''
                    | Some c \<Rightarrow> if c = [] then ''npm run build'' else c),
                 p_installCommand =
                   (case installCommand p of None \<Rightarrow> ''npm install''
                    | Some c \<Rightarrow> if c = [] then ''npm install'' else c),
                 p_projectRootDir =
                   (case projectRootDir p of None \<Rightarrow> ''./''
                    | Some c \<Rightarrow> if c = [] then ''./'' else c),
                 p_environmentVariables =
                   (case deployments p of [] \<Rightarrow> EmptyObject
                    | d # ds \<Rightarrow>
                        (case environmentVariables d of None \<Rightarrow> EmptyObject
                         | Some v \<Rightarrow> if v = [] then EmptyObject else Serialized v))\<rparr>]
       \<and> (\<forall>pre post.
             r = pre @ ''refs/heads/'' @ post
             \<and> (\<forall>i<length pre. \<not> prefix ''refs/heads/'' (drop i r))
             \<longrightarrow> replace_str r ''refs/heads/'' '''' = pre @ post)
       \<and> ((\<forall>i. \<not> prefix ''refs/heads/'' (drop i r)) \<longrightarrow> replace_str r ''refs/heads/'' '''' = r)
       \<and> (prefix ''refs/heads/'' r \<longrightarrow> replace_str r ''refs/heads/'' '''' = drop 11 r)"
proof -
  have 1: "filter is_deploy (fst (POST env req))
           = [FetchDeploy
                \<lparr>p_projectId = project_ident p,
                 p_gitBranchName = replace_str r ''refs/heads/'' '''',
                 p_gitRepoUrl = repoUrl,
                 p_gitCommitHash = body_after b,
                 p_buildCommand =
                   (case buildCommand p of None \<Rightarrow> ''npm run build''
                    | Some c \<Rightarrow> if c = [] then ''npm run build'' else c),
                 p_installCommand =
                   (case installCommand p of None \<Rightarrow> ''npm install''
                    | Some c \<Rightarrow> if c = [] then ''npm install'' else c),
                 p_projectRootDir =
                   (case projectRootDir p of None \<Rightarrow> ''./''
                    | Some c \<Rightarrow> if c = [] then ''./'' else c),
                 p_environmentVariables =
                   (case deployments p of [] \<Rightarrow> EmptyObject
                    | d # ds \<Rightarrow>
                        (case environmentVariables d of None \<Rightarrow> EmptyObject
                         | Some v \<Rightarrow> if v = [] then EmptyObject else Serialized v))\<rparr>]"
    using POST_push_events [OF assms]
    by (simp add: deploymentPayload_def first_environment_def or_default_def)
  have 2: "replace_str r ''refs/heads/'' '''' = pre @ post"
    if "r = pre @ ''refs/heads/'' @ post \<and> (\<forall>i<length pre. \<not> prefix ''refs/heads/'' (drop i r))"
    for pre post
  proof -
    from that have e: "r = pre @ ''refs/heads/'' @ post"
      and n: "\<forall>i<length pre. \<not> prefix ''refs/heads/'' (drop i (pre @ ''refs/heads/'' @ post))"
      by auto
    show ?thesis
      using replace_str_first [OF n, of "''''"] unfolding e by simp
  qed
  have 3: "(\<forall>i. \<not> prefix ''refs/heads/'' (drop i r)) \<longrightarrow> replace_str r ''refs/heads/'' '''' = r"
    using replace_str_absent [of "''refs/heads/''" r "''''"] by simp
  have 4: "prefix ''refs/heads/'' r \<longrightarrow> replace_str r ''refs/heads/'' '''' = drop 11 r"
    using replace_refs_heads by blast
  from 1 2 3 4 show ?thesis by blast
qed

lemma demo_most_recent: "most_recent (deployments demo_project) = Some newer_deployment"
  by (simp add: demo_project_def older_deployment_def newer_deployment_def)

lemma demo_tag_fields:
  "json_parse demo_hook_env ''push-tag'' = Body demo_tag_push"
  "body_event demo_tag_push = Some ''push''"
  "body_repository demo_tag_push = Some (Some ''https://github.com/o/r.git'')"
  "body_ref demo_tag_push = Some ''refs/tags/refs/heads/v1''"
  "body_after demo_tag_push = Some ''def456''"
  "signature_header demo_tag_request = Some (''sha256='' @ hex_digest 0)"
  "req_text demo_tag_request = ''push-tag''"
  "projectId_param demo_tag_request = Some ''p1''"
  by (simp_all add: demo_hook_env_def demo_tag_push_def demo_tag_request_def)

lemma demo_tag_verify:
  "snd (verifyGitHubWebhook demo_hook_env demo_tag_request (req_text demo_tag_request)) = Inr True"
  by (simp add: verifyGitHubWebhook_def demo_tag_fields demo_hook_fields timingSafeEqual_def)

lemma demo_tag_branch: "replace_str ''refs/tags/refs/heads/v1'' ''refs/heads/'' '''' = ''refs/tags/v1''"
  by simp

lemma demo_tag_payload:
  "deploymentPayload demo_project (Some ''https://github.com/o/r.git'') ''refs/tags/v1'' (Some ''def456'')
     = \<lparr>p_projectId = ''p1'', p_gitBranchName = ''refs/tags/v1'',
        p_gitRepoUrl = Some ''https://github.com/o/r.git'', p_gitCommitHash = Some ''def456'',
        p_buildCommand = ''npm run build'', p_installCommand = ''npm install'',
        p_projectRootDir = ''./'', p_environmentVariables = Serialized ''old-variables''\<rparr>"
  by (simp add: deploymentPayload_def demo_project_def or_default_def first_environment_def
      older_deployment_def)

lemma demo_project_fields:
  "project_ident demo_project = ''p1''" "installCommand demo_project = None"
  "buildCommand demo_project = None" "projectRootDir demo_project = None"
  "deployments demo_project = [older_deployment, newer_deployment]"
  "environmentVariables older_deployment = Some ''old-variables''"
  by (simp_all add: demo_project_def older_deployment_def)

theorem push_assembles_deployment_request_witness:
  "snd (verifyGitHubWebhook demo_hook_env demo_request (req_text demo_request)) = Inr True
   \<and> find_project demo_hook_env (projectId_param demo_request) (Some ''https://github.com/o/r.git'')
        = Inr (Some demo_project)
   \<and> filter is_deploy (fst (POST demo_hook_env demo_request))
        = [FetchDeploy
             \<lparr>p_projectId = ''p1'', p_gitBranchName = ''main'',
              p_gitRepoUrl = Some ''https://github.com/o/r.git'', p_gitCommitHash = Some ''abc123'',
              p_buildCommand = ''npm run build'', p_installCommand = ''npm install'',
              p_projectRootDir = ''./'', p_environmentVariables = Serialized ''old-variables''\<rparr>]"
proof -
  have a2: "json_parse demo_hook_env (req_text demo_request) = Body demo_push"
    by (simp add: demo_request_fields demo_hook_fields)
  have a6: "find_project demo_hook_env (projectId_param demo_request) (Some ''https://github.com/o/r.git'')
              = Inr (Some demo_project)"
    by (simp add: demo_request_fields demo_hook_fields)
  have a7: "\<not> fetch_latest_throws demo_hook_env (Some ''https://github.com/o/r.git'')
               (replace_str ''refs/heads/main'' ''refs/heads/'' '''')"
    by (simp only: demo_hook_fields) simp
  note T = push_assembles_deployment_request
             [OF demo_verify a2 demo_push_fields(1) demo_push_fields(2) demo_push_fields(3) a6 a7]
  have "filter is_deploy (fst (POST demo_hook_env demo_request))
        = [FetchDeploy
             \<lparr>p_projectId = ''p1'', p_gitBranchName = ''main'',
              p_gitRepoUrl = Some ''https://github.com/o/r.git'', p_gitCommitHash = Some ''abc123'',
              p_buildCommand = ''npm run build'', p_installCommand = ''npm install'',
              p_projectRootDir = ''./'', p_environmentVariables = Serialized ''old-variables''\<rparr>]"
    using conjunct1 [OF T]
    by (simp only: demo_branch demo_push_fields demo_project_fields)
       (simp add: demo_project_fields)
  then show ?thesis using demo_verify a6 by blast
qed

text \<open>
  Claim C9 as stated fails in two ways. The store lists the older deployment first, and the
  request carries its variables, not those of the most recent deployment. The ref of the
  tag \<^verbatim>\<open>refs/heads/v1\<close> does not start with \<^verbatim>\<open>refs/heads/\<close>, so stripping the prefix leaves it
  as it is, and the request carries the branch \<^verbatim>\<open>refs/tags/v1\<close>.
\<close>

theorem first_deployment_counterexample:
  "filter is_deploy (fst (POST demo_hook_env demo_request))
        = [FetchDeploy
             \<lparr>p_projectId = ''p1'', p_gitBranchName = ''main'',
              p_gitRepoUrl = Some ''https://github.com/o/r.git'', p_gitCommitHash = Some ''abc123'',
              p_buildCommand = ''npm run build'', p_installCommand = ''npm install'',
              p_projectRootDir = ''./'', p_environmentVariables = Serialized ''old-variables''\<rparr>]
   \<and> most_recent (deployments demo_project) = Some newer_deployment
   \<and> environmentVariables newer_deployment = Some ''new-variables''
   \<and> body_ref demo_tag_push = Some ''refs/tags/refs/heads/v1''
   \<and> strip_refs_heads ''refs/tags/refs/heads/v1'' = ''refs/tags/refs/heads/v1''
   \<and> filter is_deploy (fst (POST demo_hook_env demo_tag_request))
        = [FetchDeploy
             \<lparr>p_projectId = ''p1'', p_gitBranchName = ''refs/tags/v1'',
              p_gitRepoUrl = Some ''https://github.com/o/r.git'', p_gitCommitHash = Some ''def456'',
              p_buildCommand = ''npm run build'', p_installCommand = ''npm install'',
              p_projectRootDir = ''./'', p_environmentVariables = Serialized ''old-variables''\<rparr>]"
proof -
  have a2: "json_parse demo_hook_env (req_text demo_request) = Body demo_push"
    by (simp add: demo_request_fields demo_hook_fields)
  have a6: "find_project demo_hook_env (projectId_param demo_request) (Some ''https://github.com/o/r.git'')
              = Inr (Some demo_project)"
    by (simp add: demo_request_fields demo_hook_fields)
  have a7: "\<not> fetch_latest_throws demo_hook_env (Some ''https://github.com/o/r.git'')
               (replace_str ''refs/heads/main'' ''refs/heads/'' '''')"
    by (simp only: demo_hook_fields) simp
  note E = POST_push_events
             [OF demo_verify a2 demo_push_fields(1) demo_push_fields(2) demo_push_fields(3) a6 a7]
  have main: "filter is_deploy (fst (POST demo_hook_env demo_request))
        = [FetchDeploy
             \<lparr>p_projectId = ''p1'', p_gitBranchName = ''main'',
              p_gitRepoUrl = Some ''https://github.com/o/r.git'', p_gitCommitHash = Some ''abc123'',
              p_buildCommand = ''npm run build'', p_installCommand = ''npm install'',
              p_projectRootDir = ''./'', p_environmentVariables = Serialized ''old-variables''\<rparr>]"
    using E by (simp only: demo_branch demo_push_fields demo_payload)
  have t2: "json_parse demo_hook_env (req_text demo_tag_request) = Body demo_tag_push"
    by (simp add: demo_tag_fields)
  have t6: "find_project demo_hook_env (projectId_param demo_tag_request)
              (Some ''https://github.com/o/r.git'') = Inr (Some demo_project)"
    by (simp add: demo_tag_fields demo_hook_fields)
  have t7: "\<not> fetch_latest_throws demo_hook_env (Some ''https://github.com/o/r.git'')
               (replace_str ''refs/tags/refs/heads/v1'' ''refs/heads/'' '''')"
    by (simp only: demo_hook_fields) simp
  note F = POST_push_events
             [OF demo_tag_verify t2 demo_tag_fields(2) demo_tag_fields(3) demo_tag_fields(4) t6 t7]
  have tag: "filter is_deploy (fst (POST demo_hook_env demo_tag_request))
        = [FetchDeploy
             \<lparr>p_projectId = ''p1'', p_gitBranchName = ''refs/tags/v1'',
              p_gitRepoUrl = Some ''https://github.com/o/r.git'', p_gitCommitHash = Some ''def456'',
              p_buildCommand = ''npm run build'', p_installCommand = ''npm install'',
              p_projectRootDir = ''./'', p_environmentVariables = Serialized ''old-variables''\<rparr>]"
    using F by (simp only: demo_tag_branch demo_tag_fields demo_tag_payload)
  have s: "strip_refs_heads ''refs/tags/refs/heads/v1'' = ''refs/tags/refs/heads/v1''"
    by (simp add: strip_refs_heads_def)
  have n: "environmentVariables newer_deployment = Some ''new-variables''"
    by (simp add: newer_deployment_def)
  from main tag s n demo_most_recent demo_tag_fields(4) show ?thesis by blast
qed

section \<open>Properties of the rename and deletion prefixes\<close>

lemma slash_free_prefix:
  assumes "CHR ''/'' \<notin> set pid" and "prefix (sub @ ''/'') (pid @ ''/'' @ f)"
  shows "sub = pid \<or> prefix (pid @ ''/'') sub"
proof -
  from assms(2) obtain rest where eq: "pid @ ''/'' @ f = sub @ ''/'' @ rest"
    by (auto simp: prefix_def)
  then have "pid @ CHR ''/'' # f = sub @ CHR ''/'' # rest" by simp
  then consider us where "pid = sub @ us" "us @ CHR ''/'' # f = CHR ''/'' # rest"
    | us where "pid @ us = sub" "CHR ''/'' # f = us @ CHR ''/'' # rest"
    by (auto simp: append_eq_append_conv2)
  then show ?thesis
  proof cases
    case 1
    show ?thesis
    proof (cases us)
      case Nil
      with 1 show ?thesis by simp
    next
      case (Cons u us')
      with 1 have "u = CHR ''/''" by simp
      with 1 Cons assms(1) show ?thesis by simp
    qed
  next
    case 2
    show ?thesis
    proof (cases us)
      case Nil
      with 2 show ?thesis by simp
    next
      case (Cons u us')
      with 2 have "u = CHR ''/''" by simp
      with 2 Cons have "sub = (pid @ ''/'') @ us'" by simp
      then show ?thesis by (metis prefixI)
    qed
  qed
qed

text \<open>
  Claim C10, as amended. When the project id holds no slash and the subdomain is neither the
  project id nor starts with the project id followed by a slash, no key the Build Runner
  uploads to lies under the prefix that the rename copies from or under the prefix that the
  deletion deletes.
\<close>

theorem rename_prefix_disjoint_from_uploads:
  assumes "CHR ''/'' \<notin> set (PROJECT_ID env)"
    and "subDomain \<noteq> PROJECT_ID env"
    and "\<not> prefix (PROJECT_ID env @ ''/'') subDomain"
  shows "\<not> prefix (oldPrefix subDomain) (Key (put_command env f))
       \<and> \<not> prefix (folderPrefix subDomain) (Key (put_command env f))"
proof -
  have "\<not> prefix (subDomain @ ''/'') (PROJECT_ID env @ ''/'' @ f)"
    using slash_free_prefix [OF assms(1), of subDomain f] assms(2,3) by blast
  then show ?thesis
    by (simp add: oldPrefix_def folderPrefix_def put_command_def)
qed

theorem rename_prefix_disjoint_from_uploads_witness:
  "CHR ''/'' \<notin> set (PROJECT_ID demo_env)
   \<and> ''calm-blue-river'' \<noteq> PROJECT_ID demo_env
   \<and> \<not> prefix (PROJECT_ID demo_env @ ''/'') ''calm-blue-river''
   \<and> \<not> prefix (oldPrefix ''calm-blue-river'') (Key (put_command demo_env ''assets/app.js''))
   \<and> \<not> prefix (folderPrefix ''calm-blue-river'') (Key (put_command demo_env ''assets/app.js''))"
proof -
  have 1: "CHR ''/'' \<notin> set (PROJECT_ID demo_env)" by (simp add: demo_fields)
  have 2: "''calm-blue-river'' \<noteq> PROJECT_ID demo_env" by (simp add: demo_fields)
  have 3: "\<not> prefix (PROJECT_ID demo_env @ ''/'') ''calm-blue-river''" by (simp add: demo_fields)
  from rename_prefix_disjoint_from_uploads [OF 1 2 3, of "''assets/app.js''"] 1 2 3
  show ?thesis by blast
qed

text \<open>
  Claim C10 as stated fails: the subdomain \<^verbatim>\<open>p1/assets\<close> differs from the project id \<^verbatim>\<open>p1\<close>,
  and the uploaded object \<^verbatim>\<open>__outputs/p1/assets/app.js\<close> lies under its prefix.
\<close>

theorem rename_prefix_overlap_counterexample:
  "''p1/assets'' \<noteq> PROJECT_ID demo_env
   \<and> S3Send (put_command demo_env ''assets/app.js'') \<in> set (fst (close_handler demo_env (Some 0)))
   \<and> prefix (oldPrefix ''p1/assets'') (Key (put_command demo_env ''assets/app.js''))
   \<and> prefix (folderPrefix ''p1/assets'') (Key (put_command demo_env ''assets/app.js''))"
  by (simp add: demo_put_set)
     (simp add: demo_fields demo_put_commands oldPrefix_def folderPrefix_def)

end
